theory Spec2Isabelle
  imports Main
begin

section \<open>Python values\<close>

text \<open>
  The client of \<^verbatim>\<open>app/mcp/mcp_client.py\<close> handles decoded JSON documents. A Python
  \<^verbatim>\<open>str\<close> is modelled as the list of its code points, for code points below 256; a
  \<^verbatim>\<open>dict\<close> is an association list in insertion order (its keys are distinct in
  Python); \<^verbatim>\<open>None\<close> is \<open>JNull\<close>. A finite float is \<open>JFloat m e\<close>, the number
  \<open>m * 2 ^ e\<close>.
\<close>

datatype json =
    JNull
  | JBool bool
  | JInt int
  | JFloat int int
  | JStr string
  | JArr "json list"
  | JObj "(string \<times> json) list"

text \<open>Truth value of a decoded value, as \<^verbatim>\<open>if x:\<close> and \<^verbatim>\<open>x or y\<close> test it.\<close>

fun truthy :: "json \<Rightarrow> bool" where
  "truthy JNull = False"
| "truthy (JBool b) = b"
| "truthy (JInt n) = (n \<noteq> 0)"
| "truthy (JFloat m e) = (m \<noteq> 0)"
| "truthy (JStr s) = (s \<noteq> [])"
| "truthy (JArr xs) = (xs \<noteq> [])"
| "truthy (JObj kvs) = (kvs \<noteq> [])"

text \<open>\<^verbatim>\<open>a or b\<close> on values.\<close>

definition py_or :: "json \<Rightarrow> json \<Rightarrow> json" where
  "py_or a b = (if truthy a then a else b)"

subsection \<open>String methods\<close>

text \<open>
  \<^verbatim>\<open>str.isspace\<close> for one code point below 256: tab, LF, VT, FF, CR, the separators
  0x1C to 0x1F, space, NEL (0x85) and the no-break space (0xA0).
\<close>

definition is_space :: "char \<Rightarrow> bool" where
  "is_space c = (c \<in> set [CHR 0x09, CHR 0x0A, CHR 0x0B, CHR 0x0C, CHR 0x0D,
     CHR 0x1C, CHR 0x1D, CHR 0x1E, CHR 0x1F, CHR 0x20, CHR 0x85, CHR 0xA0])"

text \<open>The line boundaries of \<^verbatim>\<open>str.splitlines\<close>, for code points below 256.\<close>

definition is_linebreak :: "char \<Rightarrow> bool" where
  "is_linebreak c = (c \<in> set [CHR 0x0A, CHR 0x0B, CHR 0x0C, CHR 0x0D,
     CHR 0x1C, CHR 0x1D, CHR 0x1E, CHR 0x85])"

text \<open>
  \<^verbatim>\<open>str.splitlines()\<close>: the text is cut at every line boundary, CR LF counting as
  one; the boundaries are dropped and a trailing boundary opens no empty last line.
  The first argument holds the current line, reversed.
\<close>

fun splitlines_from :: "string \<Rightarrow> string \<Rightarrow> string list" where
  "splitlines_from cur [] = (if cur = [] then [] else [rev cur])"
| "splitlines_from cur [c] =
     (if is_linebreak c then [rev cur] else [rev (c # cur)])"
| "splitlines_from cur (c # d # cs) =
     (if c = CHR 0x0D \<and> d = CHR 0x0A then rev cur # splitlines_from [] cs
      else if is_linebreak c then rev cur # splitlines_from [] (d # cs)
      else splitlines_from (c # cur) (d # cs))"

definition splitlines :: "string \<Rightarrow> string list" where
  "splitlines s = splitlines_from [] s"

definition lstrip :: "string \<Rightarrow> string" where
  "lstrip s = dropWhile is_space s"

definition rstrip :: "string \<Rightarrow> string" where
  "rstrip s = rev (dropWhile is_space (rev s))"

definition strip :: "string \<Rightarrow> string" where
  "strip s = rstrip (lstrip s)"

text \<open>
  \<^verbatim>\<open>str.lower()\<close>, one code point at a time: below 256 the cased letters are A to Z
  and 0xC0 to 0xDE without the multiplication sign 0xD7, each 32 below its lower case.
\<close>

definition lower_char :: "char \<Rightarrow> char" where
  "lower_char c =
     (let n = (of_char c :: nat)
      in if (65 \<le> n \<and> n \<le> 90) \<or> (192 \<le> n \<and> n \<le> 222 \<and> n \<noteq> 215)
         then char_of (n + 32) else c)"

definition lower :: "string \<Rightarrow> string" where
  "lower s = map lower_char s"

definition startswith :: "string \<Rightarrow> string \<Rightarrow> bool" where
  "startswith s p = (take (length p) s = p)"

text \<open>\<^verbatim>\<open>p in s\<close> on two strings: \<open>p\<close> occurs in \<open>s\<close> as a contiguous run.\<close>

fun contains :: "string \<Rightarrow> string \<Rightarrow> bool" where
  "contains [] p = (p = [])"
| "contains (c # cs) p = (startswith (c # cs) p \<or> contains cs p)"

section \<open>Transport codec: the event-stream decoder\<close>

text \<open>
  \<^verbatim>\<open>json.loads\<close> belongs to the standard library, not to the repository: every
  definition takes it as the parameter \<open>loads\<close>, which returns the decoded value or
  the message of the decode error it raises.
\<close>

type_synonym json_loads = "string \<Rightarrow> string + json"

text \<open>
  The loop of \<^verbatim>\<open>MCPClient._parse_sse_response\<close> over the lines of the body;
  \<open>data_obj\<close> is the loop's variable of that name. A payload that does not decode is
  passed over (\<^verbatim>\<open>except Exception: pass\<close>) and leaves \<open>data_obj\<close> as it was.
\<close>

fun sse_scan :: "json_loads \<Rightarrow> json \<Rightarrow> string list \<Rightarrow> json" where
  "sse_scan loads data_obj [] = data_obj"
| "sse_scan loads data_obj (raw_line # rest) =
     (let line = strip raw_line
      in if startswith (lower line) ''data:''
         then (let payload = lstrip (drop 5 line)
               in case loads payload of
                    Inr v \<Rightarrow> sse_scan loads v rest
                  | Inl _ \<Rightarrow> sse_scan loads data_obj rest)
         else sse_scan loads data_obj rest)"

text \<open>
  \<^verbatim>\<open>_parse_sse_response\<close>: when the loop leaves \<^verbatim>\<open>None\<close>, the whole text is decoded,
  and the decode error of that call is not caught here (\<open>Inl\<close> carries its message).
\<close>

definition parse_sse_response :: "json_loads \<Rightarrow> string \<Rightarrow> string + json" where
  "parse_sse_response loads sse_text =
     (let data_obj = sse_scan loads JNull (splitlines sse_text)
      in if data_obj = JNull then loads sse_text else Inr data_obj)"

subsection \<open>The decoder as the specification words it\<close>

text \<open>
  A line carries a payload when it begins with the marker, whatever the case of its
  letters; the payload is the line without the marker and without one following space.
\<close>

definition spec_is_data_line :: "string \<Rightarrow> bool" where
  "spec_is_data_line l = startswith (lower l) ''data:''"

definition spec_payload :: "string \<Rightarrow> string" where
  "spec_payload l =
     (let p = drop 5 l in case p of c # cs \<Rightarrow> (if c = CHR '' '' then cs else p) | [] \<Rightarrow> p)"

text \<open>The decoder of the specification: the last payload line decides; without one the body does.\<close>

definition spec_decode_sse :: "json_loads \<Rightarrow> string \<Rightarrow> string + json" where
  "spec_decode_sse loads body =
     (case filter spec_is_data_line (splitlines body) of
        [] \<Rightarrow> loads body
      | l # ls \<Rightarrow> loads (spec_payload (last (l # ls))))"

text \<open>
  What the code computes, said without the loop: the payloads of the data lines in
  order, the values of those that decode, and the last of these values unless it is
  \<^verbatim>\<open>None\<close>.
\<close>

definition data_payloads :: "string \<Rightarrow> string list" where
  "data_payloads body =
     map (\<lambda>line. lstrip (drop 5 line))
       (filter (\<lambda>line. startswith (lower line) ''data:'') (map strip (splitlines body)))"

fun decoded_values :: "json_loads \<Rightarrow> string list \<Rightarrow> json list" where
  "decoded_values loads [] = []"
| "decoded_values loads (p # ps) =
     (case loads p of
        Inr v \<Rightarrow> v # decoded_values loads ps
      | Inl _ \<Rightarrow> decoded_values loads ps)"

definition last_decoded :: "json_loads \<Rightarrow> string \<Rightarrow> string + json" where
  "last_decoded loads body =
     (case rev (decoded_values loads (data_payloads body)) of
        [] \<Rightarrow> loads body
      | v # _ \<Rightarrow> (if v = JNull then loads body else Inr v))"

text \<open>
  A decoder for the examples below. It knows three documents and rejects every other
  text; on the texts the examples give it, \<^verbatim>\<open>json.loads\<close> answers the same.
\<close>

definition example_loads :: json_loads where
  \<open>example_loads s =
     (if s = ''{"id": "1", "result": {}}'' then
        Inr (JObj [(''id'', JStr ''1''), (''result'', JObj [])])
      else if s = ''{"id": "2", "result": {}}'' then
        Inr (JObj [(''id'', JStr ''2''), (''result'', JObj [])])
      else if s = ''null'' then Inr JNull
      else Inl ''<decode error>'')\<close>


definition sse_body_no_data :: string where
  \<open>sse_body_no_data = ''{"id": "1", "result": {}}''\<close>

definition sse_body_two_data :: string where
  \<open>sse_body_two_data =
     ''event: message'' @ [CHR 0x0A] @ ''data: {"id": "1", "result": {}}'' @ [CHR 0x0A, CHR 0x0A]
     @ ''event: message'' @ [CHR 0x0A] @ ''DATA:   {"id": "2", "result": {}}'' @ [CHR 0x0D, CHR 0x0A]\<close>

definition sse_body_bad_tail :: string where
  \<open>sse_body_bad_tail =
     ''data: {"id": "1", "result": {}}'' @ [CHR 0x0A] @ ''data: {"id": "2", '' @ [CHR 0x0A]\<close>

definition sse_body_undecodable :: string where
  \<open>sse_body_undecodable = ''data: {"id": '' @ [CHR 0x0A]\<close>

section \<open>The protocol client\<close>

subsection \<open>Wire data, exceptions and the world outside the client\<close>

text \<open>An HTTP response as \<^verbatim>\<open>requests\<close> hands it over: status, headers and text.\<close>

record http_response =
  status_code :: nat
  resp_headers :: "(string \<times> string) list"
  resp_text :: string

text \<open>
  The exceptions that reach the client's handlers, all subclasses of \<^verbatim>\<open>Exception\<close>.
  \<open>RequestException\<close> stands for what \<^verbatim>\<open>session.post\<close> raises from
  \<^verbatim>\<open>requests.exceptions\<close> (connection refused, timeout, ...) and carries its text;
  \<open>HTTPError\<close> is raised by \<^verbatim>\<open>raise_for_status\<close>; \<open>RequestsJSONDecodeError\<close> by
  \<^verbatim>\<open>resp.json()\<close>; \<open>JSONDecodeError\<close> by \<^verbatim>\<open>json.loads\<close>; \<open>TypeError\<close>,
  \<open>AttributeError\<close> and \<open>KeyError\<close> by operations on a decoded value of the wrong
  shape; \<open>ValidationError\<close> by a pydantic model (named) that rejects its input;
  \<open>OtherException\<close> is any other exception out of the transport.
  \<open>PyException msg cause\<close> is \<^verbatim>\<open>raise Exception(msg) from cause\<close>.
\<close>

datatype exn =
    RequestException string
  | HTTPError http_response
  | RequestsJSONDecodeError string
  | JSONDecodeError string
  | TypeError json
  | AttributeError json string
  | KeyError string
  | ValidationError string json
  | OtherException string
  | PyException string "exn option"

datatype post_outcome = Raises exn | Returns http_response

record http_request =
  req_url :: string
  req_json :: json
  req_timeout :: int
  req_headers :: "(string \<times> string) list"

text \<open>
  What the client does to the world, in order: a request posted by \<^verbatim>\<open>_send_request\<close>
  and a notification posted by \<^verbatim>\<open>_send_notification\<close> (each with what
  \<^verbatim>\<open>session.post\<close> did), a call of \<^verbatim>\<open>time.sleep\<close>, a call of \<^verbatim>\<open>session.close\<close>
  (with the exception it raised, if any).
\<close>

datatype event =
    Request http_request post_outcome
  | Notification http_request post_outcome
  | Sleep nat
  | Close "exn option"

text \<open>
  Everything that is not code of the repository is a parameter: the decoder
  \<^verbatim>\<open>json.loads\<close>, the transport behind \<^verbatim>\<open>session.post\<close> (its answer to a request may
  depend on all that happened before), \<^verbatim>\<open>session.close\<close>, \<^verbatim>\<open>uuid.uuid4\<close>, the text
  \<^verbatim>\<open>str(v)\<close> of a decoded value that is not a string, the text \<^verbatim>\<open>str(e)\<close> of an
  exception raised by a library, and pydantic's conversion of a value to \<^verbatim>\<open>bool\<close>.
\<close>

record env =
  json_loads :: json_loads
  transport :: "event list \<Rightarrow> http_request \<Rightarrow> post_outcome"
  pool_close :: "event list \<Rightarrow> exn option"
  uuid4 :: "event list \<Rightarrow> string"
  py_repr :: "json \<Rightarrow> string"
  lib_message :: "exn \<Rightarrow> string"
  pydantic_bool :: "json \<Rightarrow> bool option"

text \<open>\<^verbatim>\<open>str(v)\<close>, as an f-string formats a decoded value.\<close>

definition py_str :: "env \<Rightarrow> json \<Rightarrow> string" where
  "py_str env v = (case v of JStr s \<Rightarrow> s | _ \<Rightarrow> py_repr env v)"

text \<open>\<^verbatim>\<open>str(e)\<close> of an exception.\<close>

definition str_exc :: "env \<Rightarrow> exn \<Rightarrow> string" where
  "str_exc env e =
     (case e of
        PyException msg _ \<Rightarrow> msg
      | RequestException msg \<Rightarrow> msg
      | OtherException msg \<Rightarrow> msg
      | RequestsJSONDecodeError msg \<Rightarrow> msg
      | JSONDecodeError msg \<Rightarrow> msg
      | _ \<Rightarrow> lib_message env e)"

text \<open>The classes that \<^verbatim>\<open>except requests.exceptions.RequestException\<close> catches.\<close>

definition is_request_exception :: "exn \<Rightarrow> bool" where
  "is_request_exception e =
     (case e of
        RequestException _ \<Rightarrow> True
      | HTTPError _ \<Rightarrow> True
      | RequestsJSONDecodeError _ \<Rightarrow> True
      | _ \<Rightarrow> False)"

subsection \<open>The client\<close>

text \<open>
  The fields of \<^verbatim>\<open>MCPClient\<close> that its methods read and write, and \<open>trace\<close>, the
  history of the client's effects.
\<close>

record state =
  server_url :: string
  timeout :: int
  connected :: bool
  server_capabilities :: "(string \<times> json) list option"
  session_id :: "string option"
  trace :: "event list"

text \<open>The fields as \<^verbatim>\<open>__init__\<close> leaves them, for a given URL and timeout.\<close>

definition new_client :: "string \<Rightarrow> int \<Rightarrow> state" where
  "new_client u t =
     \<lparr>server_url = u, timeout = t, connected = False, server_capabilities = None,
      session_id = None, trace = []\<rparr>"

text \<open>\<^verbatim>\<open>types.MCPResponse\<close>.\<close>

record mcp_response =
  mr_jsonrpc :: string
  mr_id :: string
  mr_result :: "(string \<times> json) list option"
  mr_error :: "(string \<times> json) list option"

text \<open>
  Validation of the fields of a pydantic model: a field declared \<^verbatim>\<open>str\<close> takes a
  string only, a field declared \<^verbatim>\<open>Optional[Dict[str, Any]]\<close> a dict or \<^verbatim>\<open>None\<close>, a
  field declared \<^verbatim>\<open>Optional[str]\<close> a string or \<^verbatim>\<open>None\<close>. The argument is the
  keyword argument when given. The result is \<open>None\<close> when the field is rejected.
\<close>

fun field_str :: "json option \<Rightarrow> string option" where
  "field_str (Some (JStr s)) = Some s"
| "field_str _ = None"

fun field_str_default :: "string \<Rightarrow> json option \<Rightarrow> string option" where
  "field_str_default d None = Some d"
| "field_str_default d (Some (JStr s)) = Some s"
| "field_str_default d _ = None"

fun field_opt_dict :: "json option \<Rightarrow> (string \<times> json) list option option" where
  "field_opt_dict None = Some None"
| "field_opt_dict (Some JNull) = Some None"
| "field_opt_dict (Some (JObj d)) = Some (Some d)"
| "field_opt_dict _ = None"

fun field_opt_str :: "json option \<Rightarrow> string option option" where
  "field_opt_str None = Some None"
| "field_opt_str (Some JNull) = Some None"
| "field_opt_str (Some (JStr s)) = Some (Some s)"
| "field_opt_str _ = None"

text \<open>
  \<^verbatim>\<open>MCPResponse(**data)\<close>: \<^verbatim>\<open>**\<close> needs a mapping; keys that are no field of the
  model are ignored; \<^verbatim>\<open>jsonrpc\<close> has a default, \<^verbatim>\<open>id\<close> is required.
\<close>

definition MCPResponse :: "json \<Rightarrow> exn + mcp_response" where
  "MCPResponse data =
     (case data of
        JObj kvs \<Rightarrow>
          (case (field_str_default ''2.0'' (map_of kvs ''jsonrpc''),
                 field_str (map_of kvs ''id''),
                 field_opt_dict (map_of kvs ''result''),
                 field_opt_dict (map_of kvs ''error'')) of
             (Some j, Some i, Some r, Some e) \<Rightarrow>
               Inr \<lparr>mr_jsonrpc = j, mr_id = i, mr_result = r, mr_error = e\<rparr>
           | _ \<Rightarrow> Inl (ValidationError ''MCPResponse'' data))
      | _ \<Rightarrow> Inl (TypeError data))"

text \<open>\<^verbatim>\<open>MCPClient._make_headers\<close>.\<close>

definition make_headers :: "state \<Rightarrow> (string \<times> string) list" where
  "make_headers s =
     [(''Content-Type'', ''application/json''),
      (''Accept'', ''application/json, text/event-stream'')]
     @ (case session_id s of
          Some sid \<Rightarrow> (if sid \<noteq> [] then [(''mcp-session-id'', sid)] else [])
        | None \<Rightarrow> [])"

text \<open>
  \<^verbatim>\<open>resp.headers.get(name)\<close>: the headers of a response are a dictionary whose keys
  match whatever the case of their letters.
\<close>

definition headers_get :: "(string \<times> string) list \<Rightarrow> string \<Rightarrow> string option" where
  "headers_get hs name = map_of (map (\<lambda>(k, v). (lower k, v)) hs) (lower name)"

text \<open>\<^verbatim>\<open>resp.raise_for_status()\<close> raises for the statuses 400 to 599.\<close>

definition raise_for_status :: "http_response \<Rightarrow> exn option" where
  "raise_for_status resp =
     (if 400 \<le> status_code resp \<and> status_code resp < 600 then Some (HTTPError resp) else None)"

text \<open>
  The two decoding paths of \<^verbatim>\<open>_send_request\<close>, chosen by the content type:
  \<^verbatim>\<open>_parse_sse_response(resp.text)\<close> or \<^verbatim>\<open>resp.json()\<close>.
\<close>

definition decode_body :: "env \<Rightarrow> http_response \<Rightarrow> exn + json" where
  "decode_body env resp =
     (let content_type =
            lower (case headers_get (resp_headers resp) ''Content-Type'' of
                     Some c \<Rightarrow> c | None \<Rightarrow> [])
      in if contains content_type ''text/event-stream''
         then (case parse_sse_response (json_loads env) (resp_text resp) of
                 Inl msg \<Rightarrow> Inl (JSONDecodeError msg)
               | Inr v \<Rightarrow> Inr v)
         else (case json_loads env (resp_text resp) of
                 Inl msg \<Rightarrow> Inl (RequestsJSONDecodeError msg)
               | Inr v \<Rightarrow> Inr v))"

text \<open>
  The two \<^verbatim>\<open>except\<close> clauses of \<^verbatim>\<open>_send_request\<close>: an exception of
  \<^verbatim>\<open>requests\<close> is raised again as \<^verbatim>\<open>Exception("Failed to communicate ...") from e\<close>,
  any other exception passes.
\<close>

definition reraise :: "env \<Rightarrow> exn \<Rightarrow> exn" where
  "reraise env e =
     (if is_request_exception e
      then PyException (''Failed to communicate with MCP server: '' @ str_exc env e) (Some e)
      else e)"

text \<open>
  The text of \<^verbatim>\<open>f"MCP Error: {error.get('message', error)}"\<close> for the error object of
  a response.
\<close>

definition mcp_error_text :: "env \<Rightarrow> (string \<times> json) list \<Rightarrow> string" where
  "mcp_error_text env err =
     ''MCP Error: '' @ py_str env (case map_of err ''message'' of Some m \<Rightarrow> m | None \<Rightarrow> JObj err)"

text \<open>The JSON body of a request: \<^verbatim>\<open>params\<close> is left out when it is \<^verbatim>\<open>None\<close>.\<close>

definition request_json :: "string \<Rightarrow> string \<Rightarrow> (string \<times> json) list option \<Rightarrow> json" where
  "request_json rid method params =
     JObj ([(''jsonrpc'', JStr ''2.0''), (''id'', JStr rid), (''method'', JStr method)]
           @ (case params of None \<Rightarrow> [] | Some p \<Rightarrow> [(''params'', JObj p)]))"

definition request_for :: "env \<Rightarrow> string \<Rightarrow> (string \<times> json) list option \<Rightarrow> state \<Rightarrow> http_request" where
  "request_for env method params s =
     \<lparr>req_url = server_url s,
      req_json = request_json (uuid4 env (trace s)) method params,
      req_timeout = timeout s,
      req_headers = make_headers s\<rparr>"

text \<open>
  What \<^verbatim>\<open>_send_request\<close> does with a response that \<^verbatim>\<open>session.post\<close> returned: the
  status check, the session token, the decoding, the validation, the error object
  (\<^verbatim>\<open>if mcp_response.error:\<close> holds for a dict that is not empty).
\<close>

definition handle_response :: "env \<Rightarrow> http_response \<Rightarrow> state \<Rightarrow> (exn + mcp_response) \<times> state" where
  "handle_response env resp s =
     (case raise_for_status resp of
        Some e \<Rightarrow> (Inl (reraise env e), s)
      | None \<Rightarrow>
          (let s' = (case headers_get (resp_headers resp) ''mcp-session-id'' of
                       Some sid \<Rightarrow> (if sid \<noteq> [] then s\<lparr>session_id := Some sid\<rparr> else s)
                     | None \<Rightarrow> s)
           in case decode_body env resp of
                Inl e \<Rightarrow> (Inl (reraise env e), s')
              | Inr data \<Rightarrow>
                  (case MCPResponse data of
                     Inl e \<Rightarrow> (Inl (reraise env e), s')
                   | Inr r \<Rightarrow>
                       (case mr_error r of
                          Some (kv # kvs) \<Rightarrow>
                            (Inl (reraise env (PyException (mcp_error_text env (kv # kvs)) None)), s')
                        | _ \<Rightarrow> (Inr r, s')))))"

text \<open>\<^verbatim>\<open>MCPClient._send_request\<close>.\<close>

definition send_request ::
  "env \<Rightarrow> string \<Rightarrow> (string \<times> json) list option \<Rightarrow> state \<Rightarrow> (exn + mcp_response) \<times> state" where
  "send_request env method params s =
     (let req = request_for env method params s;
          outcome = transport env (trace s) req;
          s' = s\<lparr>trace := trace s @ [Request req outcome]\<rparr>
      in case outcome of
           Raises e \<Rightarrow> (Inl (reraise env e), s')
         | Returns resp \<Rightarrow> handle_response env resp s')"

text \<open>
  \<^verbatim>\<open>MCPClient._send_notification\<close>: one post; what it returns is not looked at and
  what it raises is logged.
\<close>

definition notification_for :: "string \<Rightarrow> (string \<times> json) list option \<Rightarrow> state \<Rightarrow> http_request" where
  "notification_for method params s =
     \<lparr>req_url = server_url s,
      req_json = JObj ([(''jsonrpc'', JStr ''2.0''), (''method'', JStr method)]
                       @ (case params of None \<Rightarrow> [] | Some p \<Rightarrow> [(''params'', JObj p)])),
      req_timeout = timeout s,
      req_headers = make_headers s\<rparr>"

definition send_notification :: "env \<Rightarrow> string \<Rightarrow> (string \<times> json) list option \<Rightarrow> state \<Rightarrow> state" where
  "send_notification env method params s =
     (let req = notification_for method params s;
          outcome = transport env (trace s) req
      in s\<lparr>trace := trace s @ [Notification req outcome]\<rparr>)"

subsection \<open>Connection lifecycle\<close>

definition retry_delays :: "nat list" where
  "retry_delays = [1, 2, 4]"

definition initialize_params :: "(string \<times> json) list" where
  "initialize_params =
     [(''protocolVersion'', JStr ''2024-11-05''),
      (''capabilities'',
         JObj [(''roots'', JObj [(''listChanged'', JBool True)]), (''sampling'', JObj [])]),
      (''clientInfo'',
         JObj [(''name'', JStr ''customer-support-mcp-client''), (''version'', JStr ''1.0.0'')])]"

text \<open>\<^verbatim>\<open>time.sleep(delay)\<close>.\<close>

definition sleep :: "nat \<Rightarrow> state \<Rightarrow> state" where
  "sleep delay s = s\<lparr>trace := trace s @ [Sleep delay]\<rparr>"

text \<open>
  The loop of \<^verbatim>\<open>connect\<close> over \<^verbatim>\<open>enumerate(retry_delays, 1)\<close>. The \<^verbatim>\<open>try\<close> block
  is the exchange, the two assignments and the notification; of these only the
  exchange raises, and \<^verbatim>\<open>except Exception\<close> takes whatever it raises.
\<close>

fun connect_loop :: "env \<Rightarrow> (nat \<times> nat) list \<Rightarrow> state \<Rightarrow> (exn + bool) \<times> state" where
  "connect_loop env [] s = (Inr False, s)"
| "connect_loop env ((attempt, delay) # rest) s =
     (case send_request env ''initialize'' (Some initialize_params) s of
        (Inr resp, s1) \<Rightarrow>
          (let s2 = s1\<lparr>server_capabilities :=
                        Some (case mr_result resp of Some (kv # kvs) \<Rightarrow> kv # kvs | _ \<Rightarrow> [])\<rparr>;
               s3 = send_notification env ''notifications/initialized'' None s2
           in (Inr True, s3\<lparr>connected := True\<rparr>))
      | (Inl e, s1) \<Rightarrow>
          (if attempt < length retry_delays
           then connect_loop env rest (sleep delay s1)
           else (Inl (PyException (''Failed to connect to MCP server: '' @ str_exc env e) (Some e)),
                 s1)))"

text \<open>\<^verbatim>\<open>MCPClient.connect\<close>.\<close>

definition connect :: "env \<Rightarrow> state \<Rightarrow> (exn + bool) \<times> state" where
  "connect env s = connect_loop env (zip [1 ..< Suc (length retry_delays)] retry_delays) s"

text \<open>
  \<^verbatim>\<open>MCPClient.disconnect\<close>. The inner \<^verbatim>\<open>try\<close> takes whatever the shutdown exchange
  raises and its \<^verbatim>\<open>finally\<close> clears the flag; the outer \<^verbatim>\<open>finally\<close> closes the pool
  of the session (\<^verbatim>\<open>if self.session:\<close> holds for a session object) and passes over
  what \<^verbatim>\<open>close\<close> raises.
\<close>

definition shutdown_exchange :: "env \<Rightarrow> state \<Rightarrow> (exn + unit) \<times> state" where
  "shutdown_exchange env s =
     (if connected s
      then (case send_request env ''shutdown'' None s of
              (Inl e, s1) \<Rightarrow> (Inr (), s1\<lparr>connected := False\<rparr>)
            | (Inr resp, s1) \<Rightarrow> (Inr (), s1\<lparr>connected := False\<rparr>))
      else (Inr (), s))"

definition session_close :: "env \<Rightarrow> state \<Rightarrow> (exn + unit) \<times> state" where
  "session_close env s =
     (let raised = pool_close env (trace s);
          s' = s\<lparr>trace := trace s @ [Close raised]\<rparr>
      in case raised of Some e \<Rightarrow> (Inl e, s') | None \<Rightarrow> (Inr (), s'))"

definition disconnect :: "env \<Rightarrow> state \<Rightarrow> (exn + unit) \<times> state" where
  "disconnect env s =
     (case shutdown_exchange env s of
        (r, s1) \<Rightarrow>
          (case session_close env s1 of
             (Inl e, s2) \<Rightarrow> (r, s2)
           | (Inr u, s2) \<Rightarrow> (r, s2)))"

subsection \<open>Operations on decoded values\<close>

text \<open>
  \<^verbatim>\<open>x.get(key, default)\<close>, \<^verbatim>\<open>x.items()\<close>, \<^verbatim>\<open>for t in x\<close> and \<^verbatim>\<open>name in x\<close> on a
  decoded value \<open>x\<close>: the first two exist for a dict only; a dict is iterated by its
  keys and a string by its characters, anything else but a list is not iterable; a
  name is found in a list when an element equals it, in a string when it occurs in
  it, in a dict when it is a key.
\<close>

definition dict_get :: "json \<Rightarrow> string \<Rightarrow> json \<Rightarrow> exn + json" where
  "dict_get x key dflt =
     (case x of
        JObj kvs \<Rightarrow> Inr (case map_of kvs key of Some v \<Rightarrow> v | None \<Rightarrow> dflt)
      | _ \<Rightarrow> Inl (AttributeError x ''get''))"

definition py_items :: "json \<Rightarrow> exn + (string \<times> json) list" where
  "py_items x = (case x of JObj kvs \<Rightarrow> Inr kvs | _ \<Rightarrow> Inl (AttributeError x ''items''))"

definition py_iter :: "json \<Rightarrow> exn + json list" where
  "py_iter x =
     (case x of
        JArr xs \<Rightarrow> Inr xs
      | JObj kvs \<Rightarrow> Inr (map (\<lambda>(k, v). JStr k) kvs)
      | JStr s \<Rightarrow> Inr (map (\<lambda>c. JStr [c]) s)
      | _ \<Rightarrow> Inl (TypeError x))"

definition py_in :: "string \<Rightarrow> json \<Rightarrow> exn + bool" where
  "py_in name x =
     (case x of
        JArr xs \<Rightarrow> Inr (JStr name \<in> set xs)
      | JStr s \<Rightarrow> Inr (contains s name)
      | JObj kvs \<Rightarrow> Inr (name \<in> set (map fst kvs))
      | _ \<Rightarrow> Inl (TypeError x))"

subsection \<open>Tools and resources\<close>

text \<open>\<^verbatim>\<open>types.ToolParameter\<close>, \<^verbatim>\<open>types.Tool\<close>, \<^verbatim>\<open>types.Resource\<close>, \<^verbatim>\<open>types.ToolCallResponse\<close>.\<close>

record tool_parameter =
  tp_name :: string
  tp_type :: string
  tp_description :: string
  tp_required :: bool
  tp_enum :: "string list option"

record tool =
  tool_name :: string
  tool_description :: string
  parameters :: "tool_parameter list"

record resource =
  res_uri :: string
  res_name :: string
  res_description :: "string option"
  res_mimeType :: "string option"

record tool_call_response =
  content :: "(string \<times> json) list list"
  isError :: bool

text \<open>
  The dict that \<^verbatim>\<open>list_tools\<close> appends to \<^verbatim>\<open>parameters\<close> for one property: its five
  keys are fixed, \<^verbatim>\<open>name\<close> is a key of the properties and \<^verbatim>\<open>required\<close> the result of
  \<^verbatim>\<open>in\<close>; the other three are whatever the server sent.
\<close>

record raw_parameter =
  rp_name :: string
  rp_type :: json
  rp_description :: json
  rp_required :: bool
  rp_enum :: json

text \<open>The inner loop of \<^verbatim>\<open>list_tools\<close>, over \<^verbatim>\<open>properties.items()\<close>.\<close>

fun raw_parameters :: "json \<Rightarrow> (string \<times> json) list \<Rightarrow> exn + raw_parameter list" where
  "raw_parameters required [] = Inr []"
| "raw_parameters required ((name, info) # rest) =
     (case dict_get info ''type'' (JStr ''string'') of
        Inl e \<Rightarrow> Inl e
      | Inr ty \<Rightarrow>
     (case dict_get info ''description'' (JStr []) of
        Inl e \<Rightarrow> Inl e
      | Inr de \<Rightarrow>
     (case py_in name required of
        Inl e \<Rightarrow> Inl e
      | Inr rq \<Rightarrow>
     (case dict_get info ''enum'' JNull of
        Inl e \<Rightarrow> Inl e
      | Inr en \<Rightarrow>
     (case raw_parameters required rest of
        Inl e \<Rightarrow> Inl e
      | Inr ps \<Rightarrow>
          Inr (\<lparr>rp_name = name, rp_type = ty, rp_description = de,
                rp_required = rq, rp_enum = en\<rparr> # ps))))))"

text \<open>A field declared \<^verbatim>\<open>Optional[List[str]]\<close>: \<^verbatim>\<open>None\<close> or a list of strings.\<close>

fun str_list :: "json list \<Rightarrow> string list option" where
  "str_list [] = Some []"
| "str_list (JStr s # xs) = (case str_list xs of Some ss \<Rightarrow> Some (s # ss) | None \<Rightarrow> None)"
| "str_list (_ # xs) = None"

fun field_opt_str_list :: "json \<Rightarrow> string list option option" where
  "field_opt_str_list JNull = Some None"
| "field_opt_str_list (JArr xs) = (case str_list xs of Some ss \<Rightarrow> Some (Some ss) | None \<Rightarrow> None)"
| "field_opt_str_list _ = None"

text \<open>Validation of one parameter dict as a \<^verbatim>\<open>ToolParameter\<close>.\<close>

definition ToolParameter :: "raw_parameter \<Rightarrow> tool_parameter option" where
  "ToolParameter p =
     (case (field_str (Some (rp_type p)), field_str (Some (rp_description p)),
            field_opt_str_list (rp_enum p)) of
        (Some ty, Some de, Some en) \<Rightarrow>
          Some \<lparr>tp_name = rp_name p, tp_type = ty, tp_description = de,
                tp_required = rp_required p, tp_enum = en\<rparr>
      | _ \<Rightarrow> None)"

fun tool_parameters :: "raw_parameter list \<Rightarrow> tool_parameter list option" where
  "tool_parameters [] = Some []"
| "tool_parameters (p # ps) =
     (case ToolParameter p of
        None \<Rightarrow> None
      | Some q \<Rightarrow> (case tool_parameters ps of None \<Rightarrow> None | Some qs \<Rightarrow> Some (q # qs)))"

text \<open>\<^verbatim>\<open>Tool(name=..., description=..., parameters=...)\<close>.\<close>

definition Tool :: "json \<Rightarrow> json \<Rightarrow> raw_parameter list \<Rightarrow> exn + tool" where
  "Tool name description ps =
     (case (field_str (Some name), field_str (Some description), tool_parameters ps) of
        (Some n, Some d, Some qs) \<Rightarrow>
          Inr \<lparr>tool_name = n, tool_description = d, parameters = qs\<rparr>
      | _ \<Rightarrow> Inl (ValidationError ''Tool'' (JObj [(''name'', name), (''description'', description)])))"

text \<open>
  The body of the outer loop of \<^verbatim>\<open>list_tools\<close>, for one entry \<open>t\<close> of the listing.
  \<^verbatim>\<open>t["name"]\<close> raises \<^verbatim>\<open>KeyError\<close> on a dict without the key.
\<close>

definition parse_tool :: "json \<Rightarrow> exn + tool" where
  "parse_tool t =
     (case dict_get t ''inputSchema'' (JObj []) of
        Inl e \<Rightarrow> Inl e
      | Inr sc \<Rightarrow>
     (let schema = py_or sc (JObj []) in
      case dict_get schema ''properties'' (JObj []) of
        Inl e \<Rightarrow> Inl e
      | Inr pr \<Rightarrow>
     (let properties = py_or pr (JObj []) in
      case dict_get schema ''required'' (JArr []) of
        Inl e \<Rightarrow> Inl e
      | Inr rq \<Rightarrow>
     (let required = py_or rq (JArr []) in
      case py_items properties of
        Inl e \<Rightarrow> Inl e
      | Inr items \<Rightarrow>
     (case raw_parameters required items of
        Inl e \<Rightarrow> Inl e
      | Inr ps \<Rightarrow>
     (case t of
        JObj kvs \<Rightarrow>
          (case map_of kvs ''name'' of
             None \<Rightarrow> Inl (KeyError ''name'')
           | Some name \<Rightarrow>
               (case dict_get t ''description'' (JStr []) of
                  Inl e \<Rightarrow> Inl e
                | Inr description \<Rightarrow> Tool name description ps))
      | _ \<Rightarrow> Inl (TypeError t)))))))"

fun parse_tools :: "json list \<Rightarrow> exn + tool list" where
  "parse_tools [] = Inr []"
| "parse_tools (t # ts) =
     (case parse_tool t of
        Inl e \<Rightarrow> Inl e
      | Inr x \<Rightarrow> (case parse_tools ts of Inl e \<Rightarrow> Inl e | Inr xs \<Rightarrow> Inr (x # xs)))"

text \<open>\<^verbatim>\<open>resp.result.get(key, []) if resp.result else []\<close>.\<close>

definition listing :: "mcp_response \<Rightarrow> string \<Rightarrow> json" where
  "listing resp key =
     (case mr_result resp of
        Some (kv # kvs) \<Rightarrow> (case map_of (kv # kvs) key of Some v \<Rightarrow> v | None \<Rightarrow> JArr [])
      | _ \<Rightarrow> JArr [])"

text \<open>
  \<^verbatim>\<open>MCPClient.list_tools\<close>: \<^verbatim>\<open>except Exception\<close> takes whatever the exchange or the
  loops raise, and the method returns the empty list then.
\<close>

definition tools_of :: "mcp_response \<Rightarrow> exn + tool list" where
  "tools_of resp =
     (case py_iter (listing resp ''tools'') of Inl e \<Rightarrow> Inl e | Inr ts \<Rightarrow> parse_tools ts)"

definition list_tools :: "env \<Rightarrow> state \<Rightarrow> (exn + tool list) \<times> state" where
  "list_tools env s =
     (case send_request env ''tools/list'' None s of
        (Inl e, s1) \<Rightarrow> (Inr [], s1)
      | (Inr resp, s1) \<Rightarrow>
          (case tools_of resp of
             Inl e \<Rightarrow> (Inr [], s1)
           | Inr tools \<Rightarrow> (Inr tools, s1)))"

text \<open>\<^verbatim>\<open>Resource(**r)\<close>.\<close>

definition Resource :: "json \<Rightarrow> exn + resource" where
  "Resource r =
     (case r of
        JObj kvs \<Rightarrow>
          (case (field_str (map_of kvs ''uri''), field_str (map_of kvs ''name''),
                 field_opt_str (map_of kvs ''description''),
                 field_opt_str (map_of kvs ''mimeType'')) of
             (Some u, Some n, Some d, Some m) \<Rightarrow>
               Inr \<lparr>res_uri = u, res_name = n, res_description = d, res_mimeType = m\<rparr>
           | _ \<Rightarrow> Inl (ValidationError ''Resource'' r))
      | _ \<Rightarrow> Inl (TypeError r))"

fun parse_resources :: "json list \<Rightarrow> exn + resource list" where
  "parse_resources [] = Inr []"
| "parse_resources (r # rs) =
     (case Resource r of
        Inl e \<Rightarrow> Inl e
      | Inr x \<Rightarrow> (case parse_resources rs of Inl e \<Rightarrow> Inl e | Inr xs \<Rightarrow> Inr (x # xs)))"

definition resources_of :: "mcp_response \<Rightarrow> exn + resource list" where
  "resources_of resp =
     (case py_iter (listing resp ''resources'') of
        Inl e \<Rightarrow> Inl e
      | Inr rs \<Rightarrow> parse_resources rs)"

text \<open>\<^verbatim>\<open>MCPClient.list_resources\<close>.\<close>

definition list_resources :: "env \<Rightarrow> state \<Rightarrow> (exn + resource list) \<times> state" where
  "list_resources env s =
     (case send_request env ''resources/list'' None s of
        (Inl e, s1) \<Rightarrow> (Inr [], s1)
      | (Inr resp, s1) \<Rightarrow>
          (case resources_of resp of
             Inl e \<Rightarrow> (Inr [], s1)
           | Inr resources \<Rightarrow> (Inr resources, s1)))"

text \<open>A field declared \<^verbatim>\<open>List[Dict[str, Any]]\<close>: a list of dicts.\<close>

fun dict_list :: "json list \<Rightarrow> (string \<times> json) list list option" where
  "dict_list [] = Some []"
| "dict_list (JObj d # xs) = (case dict_list xs of Some ds \<Rightarrow> Some (d # ds) | None \<Rightarrow> None)"
| "dict_list (_ # xs) = None"

text \<open>\<^verbatim>\<open>ToolCallResponse(content=c, isError=f)\<close>.\<close>

definition ToolCallResponse :: "env \<Rightarrow> json \<Rightarrow> json \<Rightarrow> exn + tool_call_response" where
  "ToolCallResponse env c f =
     (case (case c of JArr xs \<Rightarrow> dict_list xs | _ \<Rightarrow> None, pydantic_bool env f) of
        (Some ds, Some b) \<Rightarrow> Inr \<lparr>content = ds, isError = b\<rparr>
      | _ \<Rightarrow> Inl (ValidationError ''ToolCallResponse'' (JObj [(''content'', c), (''isError'', f)])))"

text \<open>The value that the \<^verbatim>\<open>except\<close> branch of \<^verbatim>\<open>call_tool\<close> returns.\<close>

definition error_response :: "env \<Rightarrow> exn \<Rightarrow> tool_call_response" where
  "error_response env e =
     \<lparr>content = [[(''type'', JStr ''text''), (''text'', JStr (''Error: '' @ str_exc env e))]],
      isError = True\<rparr>"

definition tool_call_params :: "string \<Rightarrow> (string \<times> json) list \<Rightarrow> (string \<times> json) list" where
  "tool_call_params name arguments = [(''name'', JStr name), (''arguments'', JObj arguments)]"

text \<open>\<^verbatim>\<open>MCPClient.call_tool\<close>.\<close>

definition call_tool ::
  "env \<Rightarrow> string \<Rightarrow> (string \<times> json) list \<Rightarrow> state \<Rightarrow> (exn + tool_call_response) \<times> state" where
  "call_tool env name arguments s =
     (case send_request env ''tools/call'' (Some (tool_call_params name arguments)) s of
        (Inl e, s1) \<Rightarrow> (Inr (error_response env e), s1)
      | (Inr resp, s1) \<Rightarrow>
          (let result = (case mr_result resp of Some (kv # kvs) \<Rightarrow> kv # kvs | _ \<Rightarrow> []);
               c = (case map_of result ''content'' of Some v \<Rightarrow> v | None \<Rightarrow> JArr []);
               f = (case map_of result ''isError'' of Some v \<Rightarrow> v | None \<Rightarrow> JBool False)
           in case ToolCallResponse env c f of
                Inl e \<Rightarrow> (Inr (error_response env e), s1)
              | Inr r \<Rightarrow> (Inr r, s1)))"

subsection \<open>Histories\<close>

text \<open>The kind of each effect, without its data.\<close>

datatype step = Sent | Notified | Slept nat | Closed

fun step_of :: "event \<Rightarrow> step" where
  "step_of (Request req outcome) = Sent"
| "step_of (Notification req outcome) = Notified"
| "step_of (Sleep delay) = Slept delay"
| "step_of (Close raised) = Closed"

definition steps :: "event list \<Rightarrow> step list" where
  "steps es = map step_of es"

text \<open>The session header of a posted request, if it has one.\<close>

definition session_header :: "http_request \<Rightarrow> string option" where
  "session_header req = map_of (req_headers req) ''mcp-session-id''"

text \<open>
  The session token that a response supplies to \<^verbatim>\<open>_send_request\<close>: the value of its
  session header, when the post returned, the status passed \<^verbatim>\<open>raise_for_status\<close> and
  the value is not empty.
\<close>

definition supplied :: "post_outcome \<Rightarrow> string option" where
  "supplied outcome =
     (case outcome of
        Raises e \<Rightarrow> None
      | Returns resp \<Rightarrow>
          (if raise_for_status resp = None
           then (case headers_get (resp_headers resp) ''mcp-session-id'' of
                   Some sid \<Rightarrow> (if sid \<noteq> [] then Some sid else None)
                 | None \<Rightarrow> None)
           else None))"

text \<open>
  The token most recently supplied by the response to a request in a history that
  starts with the token \<open>tok\<close>. The response to a notification is not looked at.
\<close>

fun token_after :: "string option \<Rightarrow> event list \<Rightarrow> string option" where
  "token_after tok [] = tok"
| "token_after tok (Request req outcome # es) =
     token_after (case supplied outcome of Some t \<Rightarrow> Some t | None \<Rightarrow> tok) es"
| "token_after tok (e # es) = token_after tok es"

text \<open>
  Every post of a history carries the token supplied before it as its session header,
  and no session header when none was supplied.
\<close>

fun headers_follow :: "string option \<Rightarrow> event list \<Rightarrow> bool" where
  "headers_follow tok [] = True"
| "headers_follow tok (Request req outcome # es) =
     (session_header req = tok
      \<and> headers_follow (case supplied outcome of Some t \<Rightarrow> Some t | None \<Rightarrow> tok) es)"
| "headers_follow tok (Notification req outcome # es) =
     (session_header req = tok \<and> headers_follow tok es)"
| "headers_follow tok (e # es) = headers_follow tok es"

text \<open>
  The client and its history agree: every post carried the token supplied before it,
  the stored token is the one most recently supplied, and it is not the empty string.
\<close>

definition session_consistent :: "state \<Rightarrow> bool" where
  "session_consistent s =
     (headers_follow None (trace s)
      \<and> token_after None (trace s) = session_id s
      \<and> session_id s \<noteq> Some [])"

text \<open>A use of the client: one of its exchanges or one of its public methods.\<close>

datatype call =
    SendRequest string "(string \<times> json) list option"
  | SendNotification string "(string \<times> json) list option"
  | Connect
  | Disconnect
  | ListTools
  | ListResources
  | CallTool string "(string \<times> json) list"

fun perform :: "env \<Rightarrow> call \<Rightarrow> state \<Rightarrow> state" where
  "perform env (SendRequest method params) s = snd (send_request env method params s)"
| "perform env (SendNotification method params) s = send_notification env method params s"
| "perform env Connect s = snd (connect env s)"
| "perform env Disconnect s = snd (disconnect env s)"
| "perform env ListTools s = snd (list_tools env s)"
| "perform env ListResources s = snd (list_resources env s)"
| "perform env (CallTool name arguments) s = snd (call_tool env name arguments s)"

fun run :: "env \<Rightarrow> call list \<Rightarrow> state \<Rightarrow> state" where
  "run env [] s = s"
| "run env (c # cs) s = run env cs (perform env c s)"

subsection \<open>Servers and transports of the examples\<close>

definition doc_initialized :: string where
  \<open>doc_initialized = ''{"jsonrpc": "2.0", "id": "1", "result": {"capabilities": {"tools": {}}}}''\<close>

definition doc_invalid_params :: string where
  \<open>doc_invalid_params =
     ''{"jsonrpc": "2.0", "id": "1", "error": {"code": -32602, "message": "Invalid params"}}''\<close>

definition doc_empty_result :: string where
  \<open>doc_empty_result = ''{"jsonrpc": "2.0", "id": "1", "result": {}}''\<close>

definition doc_no_result :: string where
  \<open>doc_no_result = ''{"jsonrpc": "2.0", "id": "1"}''\<close>

definition doc_nameless_entries :: string where
  \<open>doc_nameless_entries =
     ''{"jsonrpc": "2.0", "id": "1", "result": {"tools": [{"description": "no name"}], ''
     @ ''"resources": [{"uri": "file:///a"}]}}''\<close>

definition doc_one_tool :: string where
  \<open>doc_one_tool =
     ''{"jsonrpc": "2.0", "id": "1", "result": {"tools": [{"name": "search", ''
     @ ''"description": "Search", "inputSchema": {"type": "object", "properties": ''
     @ ''{"query": {"type": "string", "description": "Query", "required": false}, ''
     @ ''"limit": {"type": "number"}}, "required": ["query"]}}]}}''\<close>

definition search_tool_entry :: json where
  "search_tool_entry =
     JObj [(''name'', JStr ''search''), (''description'', JStr ''Search''),
           (''inputSchema'',
              JObj [(''type'', JStr ''object''),
                    (''properties'',
                       JObj [(''query'',
                                JObj [(''type'', JStr ''string''),
                                      (''description'', JStr ''Query''),
                                      (''required'', JBool False)]),
                             (''limit'', JObj [(''type'', JStr ''number'')])]),
                    (''required'', JArr [JStr ''query''])])]"

text \<open>
  The decoder of the examples, for the documents above and those of the event-stream
  examples; it rejects every other text.
\<close>

definition server_loads :: json_loads where
  "server_loads s =
     (if s = doc_initialized then
        Inr (JObj [(''jsonrpc'', JStr ''2.0''), (''id'', JStr ''1''),
                   (''result'', JObj [(''capabilities'', JObj [(''tools'', JObj [])])])])
      else if s = doc_invalid_params then
        Inr (JObj [(''jsonrpc'', JStr ''2.0''), (''id'', JStr ''1''),
                   (''error'', JObj [(''code'', JInt (- 32602)),
                                     (''message'', JStr ''Invalid params'')])])
      else if s = doc_empty_result then
        Inr (JObj [(''jsonrpc'', JStr ''2.0''), (''id'', JStr ''1''), (''result'', JObj [])])
      else if s = doc_no_result then
        Inr (JObj [(''jsonrpc'', JStr ''2.0''), (''id'', JStr ''1'')])
      else if s = doc_nameless_entries then
        Inr (JObj [(''jsonrpc'', JStr ''2.0''), (''id'', JStr ''1''),
                   (''result'',
                      JObj [(''tools'', JArr [JObj [(''description'', JStr ''no name'')]]),
                            (''resources'', JArr [JObj [(''uri'', JStr ''file:///a'')]])])])
      else if s = doc_one_tool then
        Inr (JObj [(''jsonrpc'', JStr ''2.0''), (''id'', JStr ''1''),
                   (''result'', JObj [(''tools'', JArr [search_tool_entry])])])
      else example_loads s)"

definition json_response :: "string \<Rightarrow> http_response" where
  "json_response doc =
     \<lparr>status_code = 200,
      resp_headers = [(''Content-Type'', ''application/json''), (''Mcp-Session-Id'', ''abc'')],
      resp_text = doc\<rparr>"

definition sse_response :: "string \<Rightarrow> http_response" where
  "sse_response doc =
     \<lparr>status_code = 200,
      resp_headers = [(''content-type'', ''text/event-stream; charset=utf-8'')],
      resp_text = ''event: message'' @ [CHR 0x0D, CHR 0x0A] @ ''data: '' @ doc
                  @ [CHR 0x0D, CHR 0x0A, CHR 0x0D, CHR 0x0A]\<rparr>"

text \<open>The environment of the examples around a given transport.\<close>

definition example_env :: "(event list \<Rightarrow> http_request \<Rightarrow> post_outcome) \<Rightarrow> env" where
  "example_env tr =
     \<lparr>json_loads = server_loads,
      transport = tr,
      pool_close = (\<lambda>es. None),
      uuid4 = (\<lambda>es. ''id-'' @ replicate (length es) (CHR ''x'')),
      py_repr = (\<lambda>v. ''<value>''),
      lib_message = (\<lambda>e. ''<library error>''),
      pydantic_bool = (\<lambda>v. case v of JBool b \<Rightarrow> Some b | _ \<Rightarrow> None)\<rparr>"

text \<open>Transports: one that answers every post with a document, one that refuses every post.\<close>

definition answering :: "http_response \<Rightarrow> event list \<Rightarrow> http_request \<Rightarrow> post_outcome" where
  "answering resp es req = Returns resp"

definition refusing :: "event list \<Rightarrow> http_request \<Rightarrow> post_outcome" where
  "refusing es req = Raises (RequestException ''Connection refused'')"

text \<open>A transport that refuses the first two posts and answers the handshake from the third on.\<close>

definition flaky :: "event list \<Rightarrow> http_request \<Rightarrow> post_outcome" where
  "flaky es req =
     (if length (filter (\<lambda>st. st = Sent \<or> st = Notified) (steps es)) < 2
      then Raises (RequestException ''Connection refused'')
      else Returns (json_response doc_initialized))"

text \<open>
  The error object of a well-formed response carrying one: the status passes, the body
  decodes, the document validates as an \<^verbatim>\<open>MCPResponse\<close> and its \<^verbatim>\<open>error\<close> is a dict
  that is not empty.
\<close>

definition error_object :: "env \<Rightarrow> http_response \<Rightarrow> (string \<times> json) list option" where
  "error_object env resp =
     (if raise_for_status resp \<noteq> None then None
      else (case decode_body env resp of
              Inl e \<Rightarrow> None
            | Inr data \<Rightarrow>
                (case MCPResponse data of
                   Inl e \<Rightarrow> None
                 | Inr r \<Rightarrow> (case mr_error r of Some (kv # kvs) \<Rightarrow> Some (kv # kvs) | _ \<Rightarrow> None))))"

text \<open>What \<^verbatim>\<open>session.post\<close> does with the handshake request that \<^verbatim>\<open>connect\<close> sends in a state.\<close>

definition handshake_outcome :: "env \<Rightarrow> state \<Rightarrow> post_outcome" where
  "handshake_outcome env s =
     transport env (trace s) (request_for env ''initialize'' (Some initialize_params) s)"

text \<open>The error object with which the server rejects that handshake, if it does.\<close>

definition handshake_rejected :: "env \<Rightarrow> state \<Rightarrow> (string \<times> json) list option" where
  "handshake_rejected env s =
     (case handshake_outcome env s of Raises e \<Rightarrow> None | Returns resp \<Rightarrow> error_object env resp)"

text \<open>The state in which \<^verbatim>\<open>connect\<close> starts its next attempt after a failed one and its sleep.\<close>

definition after_failed_attempt :: "env \<Rightarrow> nat \<Rightarrow> state \<Rightarrow> state" where
  "after_failed_attempt env delay s =
     sleep delay (snd (send_request env ''initialize'' (Some initialize_params) s))"

text \<open>\<^verbatim>\<open>key not in resp.result\<close>, or no result at all.\<close>

definition lacks_key :: "mcp_response \<Rightarrow> string \<Rightarrow> bool" where
  "lacks_key resp key = (case mr_result resp of None \<Rightarrow> True | Some d \<Rightarrow> map_of d key = None)"

definition fresh :: state where
  "fresh = new_client ''http://localhost:9000/mcp'' 30"

section \<open>Properties of the event-stream decoder\<close>

lemma sse_scan_last_decoded:
  "sse_scan loads d ls =
     (case rev (decoded_values loads
        (map (\<lambda>line. lstrip (drop 5 line))
          (filter (\<lambda>line. startswith (lower line) ''data:'') (map strip ls)))) of
        [] \<Rightarrow> d
      | v # _ \<Rightarrow> v)"
  by (induction ls arbitrary: d) (auto simp: Let_def split: sum.splits list.splits)

lemma parse_sse_response_eq_last_decoded:
  "parse_sse_response loads body = last_decoded loads body"
  by (simp add: parse_sse_response_def last_decoded_def data_payloads_def
      sse_scan_last_decoded Let_def split: list.splits)

lemmas sse_eval_defs =
  parse_sse_response_def spec_decode_sse_def spec_is_data_line_def spec_payload_def
  data_payloads_def splitlines_def is_linebreak_def strip_def lstrip_def rstrip_def
  is_space_def startswith_def lower_def lower_char_def example_loads_def

text \<open>
  C1, as stated, fails. The body has two \<^verbatim>\<open>data:\<close> lines and the payload of the last
  one is cut short: the specification's decoder reports the decode error of that last
  payload, \<^verbatim>\<open>_parse_sse_response\<close> returns the first line's document.
\<close>

theorem parse_sse_response_last_line_counterexample:
  "parse_sse_response example_loads sse_body_bad_tail
     = Inr (JObj [(''id'', JStr ''1''), (''result'', JObj [])])
   \<and> spec_decode_sse example_loads sse_body_bad_tail
     = Inl ''<decode error>''"
  by (simp add: sse_body_bad_tail_def sse_eval_defs)

text \<open>
  C1, amended. \<^verbatim>\<open>_parse_sse_response\<close> returns the document of the last \<^verbatim>\<open>data:\<close>
  line whose payload decodes (the line trimmed, the five characters of the marker
  removed, white space after the marker removed), when that document is not \<^verbatim>\<open>null\<close>;
  lines whose payload does not decode are passed over. When no payload decodes, and so
  when no \<^verbatim>\<open>data:\<close> line is found, the entire body is decoded as one JSON document.
\<close>

theorem parse_sse_response_last_decodable:
  "(data_payloads body = [] \<longrightarrow> parse_sse_response loads body = loads body)
   \<and> (decoded_values loads (data_payloads body) = [] \<longrightarrow>
        parse_sse_response loads body = loads body)
   \<and> (decoded_values loads (data_payloads body) \<noteq> []
        \<and> last (decoded_values loads (data_payloads body)) \<noteq> JNull \<longrightarrow>
        parse_sse_response loads body
          = Inr (last (decoded_values loads (data_payloads body))))"
proof -
  let ?vs = "decoded_values loads (data_payloads body)"
  have none: "?vs = [] \<Longrightarrow> parse_sse_response loads body = loads body"
    by (simp add: parse_sse_response_eq_last_decoded last_decoded_def)
  have some: "parse_sse_response loads body = Inr (last ?vs)"
    if "?vs \<noteq> []" "last ?vs \<noteq> JNull"
  proof -
    from that(1) obtain v ws where r: "rev ?vs = v # ws"
      by (cases "rev ?vs") auto
    then have "last ?vs = v"
      by (metis list.sel(1) hd_rev)
    with that(2) r show ?thesis
      by (simp add: parse_sse_response_eq_last_decoded last_decoded_def)
  qed
  from none some show ?thesis by simp
qed

theorem parse_sse_response_last_decodable_witness:
  "data_payloads sse_body_no_data = []
   \<and> parse_sse_response example_loads sse_body_no_data = example_loads sse_body_no_data
   \<and> decoded_values example_loads (data_payloads sse_body_undecodable) = []
   \<and> parse_sse_response example_loads sse_body_undecodable
       = example_loads sse_body_undecodable
   \<and> decoded_values example_loads (data_payloads sse_body_two_data) \<noteq> []
   \<and> last (decoded_values example_loads (data_payloads sse_body_two_data)) \<noteq> JNull
   \<and> parse_sse_response example_loads sse_body_two_data
       = Inr (JObj [(''id'', JStr ''2''), (''result'', JObj [])])"
proof -
  have a: "data_payloads sse_body_no_data = []"
    by code_simp
  have b: "decoded_values example_loads (data_payloads sse_body_undecodable) = []"
    by code_simp
  have c: "decoded_values example_loads (data_payloads sse_body_two_data)
             = [JObj [(''id'', JStr ''1''), (''result'', JObj [])],
                JObj [(''id'', JStr ''2''), (''result'', JObj [])]]"
    by code_simp
  from a b c
    parse_sse_response_last_decodable [of sse_body_no_data example_loads]
    parse_sse_response_last_decodable [of sse_body_undecodable example_loads]
    parse_sse_response_last_decodable [of sse_body_two_data example_loads]
  show ?thesis by simp
qed

section \<open>Properties of the connection lifecycle\<close>


lemma handle_response_state:
  "snd (handle_response env resp s) =
     (case supplied (Returns resp) of Some t \<Rightarrow> s\<lparr>session_id := Some t\<rparr> | None \<Rightarrow> s)"
  by (auto simp: handle_response_def supplied_def Let_def
      split: option.splits sum.splits list.splits)

lemma send_request_state:
  "snd (send_request env m p s) =
     (let req = request_for env m p s; outcome = transport env (trace s) req
      in (case supplied outcome of
            Some t \<Rightarrow> s\<lparr>session_id := Some t, trace := trace s @ [Request req outcome]\<rparr>
          | None \<Rightarrow> s\<lparr>trace := trace s @ [Request req outcome]\<rparr>))"
  by (auto simp: send_request_def Let_def handle_response_state supplied_def
      split: post_outcome.splits option.splits)

lemma send_request_steps:
  "send_request env m p s = (r, s') \<Longrightarrow> steps (trace s') = steps (trace s) @ [Sent]"
  using send_request_state [of env m p s]
  by (auto simp: Let_def steps_def split: option.splits)

lemma send_request_connected:
  "send_request env m p s = (r, s') \<Longrightarrow> connected s' = connected s"
  using send_request_state [of env m p s]
  by (auto simp: Let_def split: option.splits)

lemma attempts: "zip [1 ..< Suc (length retry_delays)] retry_delays = [(1, 1), (2, 2), (3, 4)]"
  by (simp add: retry_delays_def upt_rec)

lemma send_notification_steps:
  "steps (trace (send_notification env m p s)) = steps (trace s) @ [Notified]"
  by (simp add: send_notification_def Let_def steps_def)

lemma sleep_steps: "steps (trace (sleep d s)) = steps (trace s) @ [Slept d]"
  by (simp add: sleep_def steps_def)

lemma sleep_connected: "connected (sleep d s) = connected s"
  by (simp add: sleep_def)

text \<open>
  C2. When the handshake exchange of \<^verbatim>\<open>connect\<close> fails on the first and on the second
  attempt and succeeds on the third, \<^verbatim>\<open>connect\<close> returns \<^verbatim>\<open>True\<close>, the client is
  connected, and the history grows by exactly: a send, a sleep of 1, a send, a sleep of
  2, a send, and the notification. So it sleeps exactly twice, 1 before the second attempt
  and 2 before the third.
\<close>

theorem connect_third_attempt:
  assumes a1: "send_request env ''initialize'' (Some initialize_params) s = (Inl e1, s1)"
      and a2: "send_request env ''initialize'' (Some initialize_params) (sleep 1 s1) = (Inl e2, s2)"
      and a3: "send_request env ''initialize'' (Some initialize_params) (sleep 2 s2) = (Inr resp, s3)"
  shows "fst (connect env s) = Inr True
       \<and> connected (snd (connect env s))
       \<and> steps (trace (snd (connect env s)))
           = steps (trace s) @ [Sent, Slept 1, Sent, Slept 2, Sent, Notified]"
proof -
  have t1: "steps (trace s1) = steps (trace s) @ [Sent]"
    using a1 by (rule send_request_steps)
  have t2: "steps (trace s2) = steps (trace (sleep 1 s1)) @ [Sent]"
    using a2 by (rule send_request_steps)
  have t3: "steps (trace s3) = steps (trace (sleep 2 s2)) @ [Sent]"
    using a3 by (rule send_request_steps)
  show ?thesis
    using a1 a2 a3 t1 t2 t3
    by (simp add: connect_def attempts retry_delays_def Let_def
        send_notification_steps sleep_steps)
qed

text \<open>
  C3. When the handshake exchange fails on all three attempts, \<^verbatim>\<open>connect\<close> raises an
  exception whose cause is the error of the last attempt and whose text ends with that
  error's text; a client that was not connected is not connected afterwards; the
  history grows by exactly three sends with a sleep of 1 and a sleep of 2 between them.
\<close>

theorem connect_all_fail:
  assumes a0: "\<not> connected s"
      and a1: "send_request env ''initialize'' (Some initialize_params) s = (Inl e1, s1)"
      and a2: "send_request env ''initialize'' (Some initialize_params) (sleep 1 s1) = (Inl e2, s2)"
      and a3: "send_request env ''initialize'' (Some initialize_params) (sleep 2 s2) = (Inl e3, s3)"
  shows "fst (connect env s)
           = Inl (PyException (''Failed to connect to MCP server: '' @ str_exc env e3) (Some e3))
       \<and> \<not> connected (snd (connect env s))
       \<and> steps (trace (snd (connect env s)))
           = steps (trace s) @ [Sent, Slept 1, Sent, Slept 2, Sent]"
proof -
  have t1: "steps (trace s1) = steps (trace s) @ [Sent]"
    using a1 by (rule send_request_steps)
  have t2: "steps (trace s2) = steps (trace (sleep 1 s1)) @ [Sent]"
    using a2 by (rule send_request_steps)
  have t3: "steps (trace s3) = steps (trace (sleep 2 s2)) @ [Sent]"
    using a3 by (rule send_request_steps)
  have c: "connected s3 = connected s"
    using a1 a2 a3 by (simp add: send_request_connected sleep_connected)
  show ?thesis
    using a0 a1 a2 a3 t1 t2 t3 c
    by (simp add: connect_def attempts retry_delays_def Let_def sleep_steps)
qed

theorem connect_third_attempt_witness:
  "fst (send_request (example_env flaky) ''initialize'' (Some initialize_params) fresh)
     = Inl (PyException ''Failed to communicate with MCP server: Connection refused''
              (Some (RequestException ''Connection refused'')))
   \<and> fst (connect (example_env flaky) fresh) = Inr True
   \<and> connected (snd (connect (example_env flaky) fresh))
   \<and> steps (trace (snd (connect (example_env flaky) fresh)))
       = [Sent, Slept 1, Sent, Slept 2, Sent, Notified]"
proof -
  let ?E = "example_env flaky"
  let ?e = "PyException ''Failed to communicate with MCP server: Connection refused''
              (Some (RequestException ''Connection refused''))"
  let ?s1 = "snd (send_request ?E ''initialize'' (Some initialize_params) fresh)"
  let ?s2 = "snd (send_request ?E ''initialize'' (Some initialize_params) (sleep 1 ?s1))"
  let ?r3 = "send_request ?E ''initialize'' (Some initialize_params) (sleep 2 ?s2)"
  have f1: "fst (send_request ?E ''initialize'' (Some initialize_params) fresh) = Inl ?e"
    by code_simp
  have f2: "fst (send_request ?E ''initialize'' (Some initialize_params) (sleep 1 ?s1)) = Inl ?e"
    by code_simp
  have f3: "fst ?r3 = Inr \<lparr>mr_jsonrpc = ''2.0'', mr_id = ''1'',
              mr_result = Some [(''capabilities'', JObj [(''tools'', JObj [])])],
              mr_error = None\<rparr>"
    by code_simp
  have h1: "send_request ?E ''initialize'' (Some initialize_params) fresh = (Inl ?e, ?s1)"
    using f1 by (simp add: prod_eq_iff)
  have h2: "send_request ?E ''initialize'' (Some initialize_params) (sleep 1 ?s1) = (Inl ?e, ?s2)"
    using f2 by (simp add: prod_eq_iff)
  have h3: "?r3 = (Inr \<lparr>mr_jsonrpc = ''2.0'', mr_id = ''1'',
              mr_result = Some [(''capabilities'', JObj [(''tools'', JObj [])])],
              mr_error = None\<rparr>, snd ?r3)"
    using f3 by (simp add: prod_eq_iff)
  have t0: "steps (trace fresh) = []"
    by (simp add: fresh_def new_client_def steps_def)
  from connect_third_attempt [OF h1 h2 h3] f1 t0 show ?thesis
    by simp
qed

theorem connect_all_fail_witness:
  "\<not> connected fresh
   \<and> fst (connect (example_env refusing) fresh)
       = Inl (PyException
           ''Failed to connect to MCP server: Failed to communicate with MCP server: Connection refused''
           (Some (PyException ''Failed to communicate with MCP server: Connection refused''
              (Some (RequestException ''Connection refused'')))))
   \<and> \<not> connected (snd (connect (example_env refusing) fresh))
   \<and> steps (trace (snd (connect (example_env refusing) fresh)))
       = [Sent, Slept 1, Sent, Slept 2, Sent]"
proof -
  let ?E = "example_env refusing"
  let ?e = "PyException ''Failed to communicate with MCP server: Connection refused''
              (Some (RequestException ''Connection refused''))"
  have any: "send_request ?E m p s = (Inl ?e, snd (send_request ?E m p s))" for m p s
    by (simp add: prod_eq_iff send_request_def Let_def example_env_def refusing_def
        reraise_def is_request_exception_def str_exc_def)
  have a0: "\<not> connected fresh"
    by (simp add: fresh_def new_client_def)
  have t0: "steps (trace fresh) = []"
    by (simp add: fresh_def new_client_def steps_def)
  from connect_all_fail [OF a0 any any any] a0 t0 show ?thesis
    by (simp add: str_exc_def)
qed


section \<open>Properties of the exchanges\<close>

lemma reraise_PyException: "reraise env (PyException msg cause) = PyException msg cause"
  by (simp add: reraise_def is_request_exception_def)

lemma handle_response_error_object:
  "error_object env resp = Some err \<Longrightarrow>
   fst (handle_response env resp s) = Inl (PyException (mcp_error_text env err) None)"
  by (auto simp: error_object_def handle_response_def Let_def reraise_PyException
      split: if_splits sum.splits option.splits list.splits)

lemma send_request_rejected:
  "transport env (trace s) (request_for env m p s) = Returns resp \<Longrightarrow>
   error_object env resp = Some err \<Longrightarrow>
   fst (send_request env m p s) = Inl (PyException (mcp_error_text env err) None)"
  by (simp add: send_request_def Let_def handle_response_error_object)

lemma handshake_rejected_send_request:
  "handshake_rejected env s = Some err \<Longrightarrow>
   fst (send_request env ''initialize'' (Some initialize_params) s)
     = Inl (PyException (mcp_error_text env err) None)"
  by (auto simp: handshake_rejected_def handshake_outcome_def
      split: post_outcome.splits intro: send_request_rejected)

lemma connect_loop_extends:
  "\<exists>more. steps (trace (snd (connect_loop env ds s))) = steps (trace s) @ more"
proof (induction ds arbitrary: s)
  case Nil
  show ?case by simp
next
  case (Cons d ds)
  obtain attempt delay where d: "d = (attempt, delay)"
    by (cases d)
  obtain r s1 where sr: "send_request env ''initialize'' (Some initialize_params) s = (r, s1)"
    by (cases "send_request env ''initialize'' (Some initialize_params) s")
  have t1: "steps (trace s1) = steps (trace s) @ [Sent]"
    using sr by (rule send_request_steps)
  show ?case
  proof (cases r)
    case (Inr resp)
    with d sr t1 show ?thesis
      by (simp add: Let_def send_notification_steps)
  next
    case (Inl e)
    from Cons.IH [of "sleep delay s1"] obtain more where
      "steps (trace (snd (connect_loop env ds (sleep delay s1))))
         = steps (trace (sleep delay s1)) @ more" ..
    with Inl d sr t1 show ?thesis
      by (simp add: sleep_steps)
  qed
qed

lemma connect_loop_first_send:
  "\<exists>more. steps (trace (snd (connect_loop env (d # ds) s))) = steps (trace s) @ Sent # more"
proof -
  obtain attempt delay where d: "d = (attempt, delay)"
    by (cases d)
  obtain r s1 where sr: "send_request env ''initialize'' (Some initialize_params) s = (r, s1)"
    by (cases "send_request env ''initialize'' (Some initialize_params) s")
  have t1: "steps (trace s1) = steps (trace s) @ [Sent]"
    using sr by (rule send_request_steps)
  show ?thesis
  proof (cases r)
    case (Inr resp)
    with d sr t1 show ?thesis
      by (simp add: Let_def send_notification_steps)
  next
    case (Inl e)
    from connect_loop_extends [of env ds "sleep delay s1"] obtain more where
      "steps (trace (snd (connect_loop env ds (sleep delay s1))))
         = steps (trace (sleep delay s1)) @ more" ..
    with Inl d sr t1 show ?thesis
      by (simp add: sleep_steps)
  qed
qed

text \<open>
  C4, as stated, fails. The server answers every handshake with a well-formed response
  that carries the error object \<^verbatim>\<open>{"code": -32602, "message": "Invalid params"}\<close>. After
  the first such response \<^verbatim>\<open>connect\<close> sleeps and sends again, twice.
\<close>

theorem connect_protocol_error_counterexample:
  "handshake_rejected (example_env (answering (json_response doc_invalid_params))) fresh
     = Some [(''code'', JInt (- 32602)), (''message'', JStr ''Invalid params'')]
   \<and> steps (trace (snd (connect (example_env (answering (json_response doc_invalid_params))) fresh)))
     = [Sent, Slept 1, Sent, Slept 2, Sent]"
  by code_simp

text \<open>
  C4, amended. A well-formed response that carries a protocol-level error object is, for
  \<^verbatim>\<open>connect\<close>, a failed attempt like any other. After such a response to the first
  attempt \<^verbatim>\<open>connect\<close> sleeps 1 and sends the handshake again. When all three attempts
  are answered so, there are three sends with sleeps of 1 and 2 between them, no sleep
  and no send after the third response, and the error of the third response is surfaced
  then, as the cause of \<^verbatim>\<open>Exception("Failed to connect to MCP server: MCP Error: ...")\<close>.
\<close>

theorem connect_retries_rejected_handshake:
  "(handshake_rejected env s = Some err \<longrightarrow>
      take 3 (drop (length (trace s)) (steps (trace (snd (connect env s)))))
        = [Sent, Slept 1, Sent])
   \<and> (handshake_rejected env s = Some err1
        \<and> handshake_rejected env (after_failed_attempt env 1 s) = Some err2
        \<and> handshake_rejected env (after_failed_attempt env 2 (after_failed_attempt env 1 s))
            = Some err3 \<longrightarrow>
      fst (connect env s)
        = Inl (PyException (''Failed to connect to MCP server: '' @ mcp_error_text env err3)
                 (Some (PyException (mcp_error_text env err3) None)))
      \<and> steps (trace (snd (connect env s)))
        = steps (trace s) @ [Sent, Slept 1, Sent, Slept 2, Sent])"
proof (rule conjI; rule impI)
  let ?send = "send_request env ''initialize'' (Some initialize_params)"
  assume r: "handshake_rejected env s = Some err"
  obtain s1 where h1: "?send s = (Inl (PyException (mcp_error_text env err) None), s1)"
    using handshake_rejected_send_request [OF r] by (cases "?send s") auto
  have t1: "steps (trace s1) = steps (trace s) @ [Sent]"
    using h1 by (rule send_request_steps)
  from connect_loop_first_send [of env "(2, 2)" "[(3, 4)]" "sleep 1 s1"] obtain more where
    m: "steps (trace (snd (connect_loop env [(2, 2), (3, 4)] (sleep 1 s1))))
          = steps (trace (sleep 1 s1)) @ Sent # more" ..
  have "connect env s = connect_loop env [(2, 2), (3, 4)] (sleep 1 s1)"
    unfolding connect_def attempts
    by (subst connect_loop.simps) (simp add: h1 retry_delays_def del: connect_loop.simps)
  with m t1 have "steps (trace (snd (connect env s)))
      = steps (trace s) @ [Sent, Slept 1, Sent] @ more"
    by (simp add: sleep_steps)
  moreover have "length (trace s) = length (steps (trace s))"
    by (simp add: steps_def)
  ultimately show "take 3 (drop (length (trace s)) (steps (trace (snd (connect env s)))))
      = [Sent, Slept 1, Sent]"
    by simp
next
  let ?send = "send_request env ''initialize'' (Some initialize_params)"
  assume a: "handshake_rejected env s = Some err1
        \<and> handshake_rejected env (after_failed_attempt env 1 s) = Some err2
        \<and> handshake_rejected env (after_failed_attempt env 2 (after_failed_attempt env 1 s))
            = Some err3"
  obtain s1 where h1: "?send s = (Inl (PyException (mcp_error_text env err1) None), s1)"
    using a handshake_rejected_send_request [of env s err1] by (cases "?send s") auto
  have n1: "after_failed_attempt env 1 s = sleep 1 s1"
    using h1 by (simp add: after_failed_attempt_def)
  obtain s2 where
    h2: "?send (sleep 1 s1) = (Inl (PyException (mcp_error_text env err2) None), s2)"
    using a n1 handshake_rejected_send_request [of env "sleep 1 s1" err2]
    by (cases "?send (sleep 1 s1)") auto
  have n2: "after_failed_attempt env 2 (sleep 1 s1) = sleep 2 s2"
    using h2 by (simp add: after_failed_attempt_def)
  obtain s3 where
    h3: "?send (sleep 2 s2) = (Inl (PyException (mcp_error_text env err3) None), s3)"
    using a n1 n2 handshake_rejected_send_request [of env "sleep 2 s2" err3]
    by (cases "?send (sleep 2 s2)") auto
  have t1: "steps (trace s1) = steps (trace s) @ [Sent]"
    using h1 by (rule send_request_steps)
  have t2: "steps (trace s2) = steps (trace (sleep 1 s1)) @ [Sent]"
    using h2 by (rule send_request_steps)
  have t3: "steps (trace s3) = steps (trace (sleep 2 s2)) @ [Sent]"
    using h3 by (rule send_request_steps)
  have c: "connect env s
      = (Inl (PyException (''Failed to connect to MCP server: '' @ mcp_error_text env err3)
                 (Some (PyException (mcp_error_text env err3) None))), s3)"
    using h1 h2 h3 by (simp add: connect_def attempts retry_delays_def str_exc_def)
  show "fst (connect env s)
        = Inl (PyException (''Failed to connect to MCP server: '' @ mcp_error_text env err3)
                 (Some (PyException (mcp_error_text env err3) None)))
      \<and> steps (trace (snd (connect env s)))
        = steps (trace s) @ [Sent, Slept 1, Sent, Slept 2, Sent]"
    using c t1 t2 t3 by (simp add: sleep_steps)
qed

theorem connect_retries_rejected_handshake_witness:
  "handshake_rejected (example_env (answering (json_response doc_invalid_params))) fresh
     = Some [(''code'', JInt (- 32602)), (''message'', JStr ''Invalid params'')]
   \<and> take 3 (drop (length (trace fresh))
        (steps (trace (snd (connect (example_env (answering (json_response doc_invalid_params))) fresh)))))
       = [Sent, Slept 1, Sent]
   \<and> fst (connect (example_env (answering (json_response doc_invalid_params))) fresh)
       = Inl (PyException ''Failed to connect to MCP server: MCP Error: Invalid params''
                (Some (PyException ''MCP Error: Invalid params'' None)))
   \<and> steps (trace (snd (connect (example_env (answering (json_response doc_invalid_params))) fresh)))
       = [Sent, Slept 1, Sent, Slept 2, Sent]"
proof -
  let ?E = "example_env (answering (json_response doc_invalid_params))"
  let ?err = "[(''code'', JInt (- 32602)), (''message'', JStr ''Invalid params'')]"
  have any: "handshake_rejected ?E s = Some ?err" for s
    by (simp add: handshake_rejected_def handshake_outcome_def example_env_def answering_def
        json_response_def error_object_def raise_for_status_def decode_body_def headers_get_def
        lower_def lower_char_def server_loads_def doc_invalid_params_def doc_initialized_def
        MCPResponse_def startswith_def)
  have m: "mcp_error_text ?E ?err = ''MCP Error: Invalid params''"
    by (simp add: mcp_error_text_def py_str_def)
  have t0: "trace fresh = []"
    by (simp add: fresh_def new_client_def)
  from connect_retries_rejected_handshake [of ?E fresh ?err ?err ?err ?err] any m t0
  show ?thesis by (simp add: steps_def)
qed


section \<open>Properties of the tool and resource methods\<close>

text \<open>
  C5. Whatever makes the exchange of \<^verbatim>\<open>call_tool\<close> fail (an exception of the transport,
  an error status, a body that does not decode, a document that is no response, an error
  object), \<^verbatim>\<open>call_tool\<close> does not raise: it returns a response with \<^verbatim>\<open>isError\<close> set and
  one content item of type \<^verbatim>\<open>text\<close> whose text is \<^verbatim>\<open>Error:\<close> followed by the text of the
  failure. For an error object with the message \<open>m\<close> this text is
  \<^verbatim>\<open>Error: MCP Error: m\<close>. And \<^verbatim>\<open>call_tool\<close> raises in no case at all.
\<close>

theorem call_tool_failure_is_flagged:
  "(send_request env ''tools/call'' (Some (tool_call_params name arguments)) s = (Inl e, s1) \<longrightarrow>
      call_tool env name arguments s
        = (Inr \<lparr>content = [[(''type'', JStr ''text''),
                              (''text'', JStr (''Error: '' @ str_exc env e))]],
                 isError = True\<rparr>, s1))
   \<and> (transport env (trace s)
          (request_for env ''tools/call'' (Some (tool_call_params name arguments)) s)
          = Returns resp
        \<and> error_object env resp = Some err \<and> map_of err ''message'' = Some (JStr m) \<longrightarrow>
      fst (call_tool env name arguments s)
        = Inr \<lparr>content = [[(''type'', JStr ''text''),
                             (''text'', JStr (''Error: MCP Error: '' @ m))]],
                isError = True\<rparr>)
   \<and> (\<exists>r. fst (call_tool env name arguments s) = Inr r)"
proof (intro conjI)
  show "send_request env ''tools/call'' (Some (tool_call_params name arguments)) s = (Inl e, s1) \<longrightarrow>
      call_tool env name arguments s
        = (Inr \<lparr>content = [[(''type'', JStr ''text''),
                              (''text'', JStr (''Error: '' @ str_exc env e))]],
                 isError = True\<rparr>, s1)"
    by (simp add: call_tool_def error_response_def)
next
  let ?send = "send_request env ''tools/call'' (Some (tool_call_params name arguments)) s"
  show "transport env (trace s)
          (request_for env ''tools/call'' (Some (tool_call_params name arguments)) s)
          = Returns resp
        \<and> error_object env resp = Some err \<and> map_of err ''message'' = Some (JStr m) \<longrightarrow>
      fst (call_tool env name arguments s)
        = Inr \<lparr>content = [[(''type'', JStr ''text''),
                             (''text'', JStr (''Error: MCP Error: '' @ m))]],
                isError = True\<rparr>"
  proof
    assume a: "transport env (trace s)
          (request_for env ''tools/call'' (Some (tool_call_params name arguments)) s)
          = Returns resp
        \<and> error_object env resp = Some err \<and> map_of err ''message'' = Some (JStr m)"
    then have "fst ?send = Inl (PyException (mcp_error_text env err) None)"
      by (simp add: send_request_rejected)
    then obtain s1 where "?send = (Inl (PyException (mcp_error_text env err) None), s1)"
      by (cases ?send) auto
    with a show "fst (call_tool env name arguments s)
        = Inr \<lparr>content = [[(''type'', JStr ''text''),
                             (''text'', JStr (''Error: MCP Error: '' @ m))]],
                isError = True\<rparr>"
      by (simp add: call_tool_def error_response_def str_exc_def mcp_error_text_def py_str_def)
  qed
next
  show "\<exists>r. fst (call_tool env name arguments s) = Inr r"
    by (simp add: call_tool_def Let_def split: prod.splits sum.splits)
qed

theorem call_tool_failure_is_flagged_witness:
  "fst (send_request (example_env (answering (sse_response doc_invalid_params))) ''tools/call''
          (Some (tool_call_params ''search'' [(''query'', JStr ''x'')])) fresh)
     = Inl (PyException ''MCP Error: Invalid params'' None)
   \<and> fst (call_tool (example_env (answering (sse_response doc_invalid_params))) ''search''
            [(''query'', JStr ''x'')] fresh)
     = Inr \<lparr>content = [[(''type'', JStr ''text''),
                          (''text'', JStr ''Error: MCP Error: Invalid params'')]],
             isError = True\<rparr>"
proof -
  let ?E = "example_env (answering (sse_response doc_invalid_params))"
  let ?p = "Some (tool_call_params ''search'' [(''query'', JStr ''x'')])"
  let ?err = "[(''code'', JInt (- 32602)), (''message'', JStr ''Invalid params'')]"
  have f: "fst (send_request ?E ''tools/call'' ?p fresh)
             = Inl (PyException ''MCP Error: Invalid params'' None)"
    by code_simp
  have h1: "send_request ?E ''tools/call'' ?p fresh
      = (Inl (PyException ''MCP Error: Invalid params'' None),
         snd (send_request ?E ''tools/call'' ?p fresh))"
    using f by (simp add: prod_eq_iff)
  have h2: "transport ?E (trace fresh) (request_for ?E ''tools/call'' ?p fresh)
      = Returns (sse_response doc_invalid_params)"
    by (simp add: example_env_def answering_def)
  have h3: "error_object ?E (sse_response doc_invalid_params) = Some ?err"
    by code_simp
  have h4: "map_of ?err ''message'' = Some (JStr ''Invalid params'')"
    by simp
  from call_tool_failure_is_flagged [of ?E "''search''" "[(''query'', JStr ''x'')]" fresh
      "PyException ''MCP Error: Invalid params'' None"
      "snd (send_request ?E ''tools/call'' ?p fresh)"
      "sse_response doc_invalid_params" ?err "''Invalid params''"]
    h1 h2 h3 h4 f
  show ?thesis by (simp add: str_exc_def)
qed

section \<open>Properties of \<^verbatim>\<open>disconnect\<close>\<close>

lemma disconnect_returns: "fst (disconnect env s) = Inr ()"
  by (simp add: disconnect_def shutdown_exchange_def session_close_def Let_def
      split: prod.splits sum.splits option.splits)

lemma disconnect_clears: "\<not> connected (snd (disconnect env s))"
  by (auto simp: disconnect_def shutdown_exchange_def session_close_def Let_def
      split: prod.splits sum.splits option.splits if_splits)

text \<open>
  C7. \<^verbatim>\<open>disconnect\<close> returns without raising in every state and in every environment,
  so whatever the shutdown exchange or \<^verbatim>\<open>session.close\<close> raise; the client is not
  connected afterwards; a second \<^verbatim>\<open>disconnect\<close> right after the first, and a
  \<^verbatim>\<open>disconnect\<close> after a \<^verbatim>\<open>connect\<close> (failed or not), return without raising too.
\<close>

theorem disconnect_never_raises:
  "fst (disconnect env s) = Inr ()
   \<and> \<not> connected (snd (disconnect env s))
   \<and> fst (disconnect env (snd (disconnect env s))) = Inr ()
   \<and> \<not> connected (snd (disconnect env (snd (disconnect env s))))
   \<and> fst (disconnect env (snd (connect env s))) = Inr ()
   \<and> \<not> connected (snd (disconnect env (snd (connect env s))))"
  by (simp add: disconnect_returns disconnect_clears)

theorem disconnect_never_raises_witness:
  "connected (fresh\<lparr>connected := True\<rparr>)
   \<and> fst (send_request
        ((example_env refusing)\<lparr>pool_close := (\<lambda>es. Some (OtherException ''pool is gone''))\<rparr>)
        ''shutdown'' None (fresh\<lparr>connected := True\<rparr>))
       = Inl (PyException ''Failed to communicate with MCP server: Connection refused''
                (Some (RequestException ''Connection refused'')))
   \<and> fst (disconnect
        ((example_env refusing)\<lparr>pool_close := (\<lambda>es. Some (OtherException ''pool is gone''))\<rparr>)
        (fresh\<lparr>connected := True\<rparr>)) = Inr ()
   \<and> \<not> connected (snd (disconnect
        ((example_env refusing)\<lparr>pool_close := (\<lambda>es. Some (OtherException ''pool is gone''))\<rparr>)
        (fresh\<lparr>connected := True\<rparr>)))
   \<and> trace (snd (disconnect
        ((example_env refusing)\<lparr>pool_close := (\<lambda>es. Some (OtherException ''pool is gone''))\<rparr>)
        (snd (disconnect
          ((example_env refusing)\<lparr>pool_close := (\<lambda>es. Some (OtherException ''pool is gone''))\<rparr>)
          (fresh\<lparr>connected := True\<rparr>)))))
       = [Request
            (request_for
               ((example_env refusing)\<lparr>pool_close := (\<lambda>es. Some (OtherException ''pool is gone''))\<rparr>)
               ''shutdown'' None (fresh\<lparr>connected := True\<rparr>))
            (Raises (RequestException ''Connection refused'')),
          Close (Some (OtherException ''pool is gone'')),
          Close (Some (OtherException ''pool is gone''))]"
proof -
  let ?E = "(example_env refusing)\<lparr>pool_close := (\<lambda>es. Some (OtherException ''pool is gone''))\<rparr>"
  let ?s = "fresh\<lparr>connected := True\<rparr>"
  have a: "connected ?s"
    by simp
  have b: "fst (send_request ?E ''shutdown'' None ?s)
       = Inl (PyException ''Failed to communicate with MCP server: Connection refused''
                (Some (RequestException ''Connection refused'')))"
    by code_simp
  have c: "trace (snd (disconnect ?E (snd (disconnect ?E ?s))))
       = [Request (request_for ?E ''shutdown'' None ?s)
            (Raises (RequestException ''Connection refused'')),
          Close (Some (OtherException ''pool is gone'')),
          Close (Some (OtherException ''pool is gone''))]"
    by code_simp
  from disconnect_never_raises [of ?E ?s] a b c show ?thesis
    by simp
qed


section \<open>Properties of the listings\<close>

lemma listing_lacks_key: "lacks_key resp key \<Longrightarrow> listing resp key = JArr []"
  by (auto simp: lacks_key_def listing_def split: option.splits list.splits)

text \<open>
  C8. When the exchange of \<^verbatim>\<open>list_tools\<close> succeeds and the result of the response is
  absent or has no key \<^verbatim>\<open>tools\<close>, \<^verbatim>\<open>list_tools\<close> returns the empty list; and so does
  \<^verbatim>\<open>list_resources\<close> for the key \<^verbatim>\<open>resources\<close>.
\<close>

theorem listing_without_key_is_empty:
  "(send_request env ''tools/list'' None s = (Inr resp, s1) \<and> lacks_key resp ''tools'' \<longrightarrow>
      list_tools env s = (Inr [], s1))
   \<and> (send_request env ''resources/list'' None s = (Inr resp', s1')
        \<and> lacks_key resp' ''resources'' \<longrightarrow>
      list_resources env s = (Inr [], s1'))"
  by (simp add: list_tools_def list_resources_def tools_of_def resources_of_def
      listing_lacks_key py_iter_def)

theorem listing_without_key_is_empty_witness:
  "fst (send_request (example_env (answering (json_response doc_no_result))) ''tools/list'' None fresh)
     = Inr \<lparr>mr_jsonrpc = ''2.0'', mr_id = ''1'', mr_result = None, mr_error = None\<rparr>
   \<and> lacks_key \<lparr>mr_jsonrpc = ''2.0'', mr_id = ''1'', mr_result = None, mr_error = None\<rparr> ''tools''
   \<and> fst (list_tools (example_env (answering (json_response doc_no_result))) fresh) = Inr []
   \<and> fst (send_request (example_env (answering (sse_response doc_initialized))) ''resources/list''
            None fresh)
     = Inr \<lparr>mr_jsonrpc = ''2.0'', mr_id = ''1'',
             mr_result = Some [(''capabilities'', JObj [(''tools'', JObj [])])],
             mr_error = None\<rparr>
   \<and> lacks_key \<lparr>mr_jsonrpc = ''2.0'', mr_id = ''1'',
             mr_result = Some [(''capabilities'', JObj [(''tools'', JObj [])])],
             mr_error = None\<rparr> ''resources''
   \<and> fst (list_resources (example_env (answering (sse_response doc_initialized))) fresh) = Inr []"
proof -
  let ?E = "example_env (answering (json_response doc_no_result))"
  let ?F = "example_env (answering (sse_response doc_initialized))"
  let ?r = "\<lparr>mr_jsonrpc = ''2.0'', mr_id = ''1'', mr_result = None, mr_error = None\<rparr>"
  let ?q = "\<lparr>mr_jsonrpc = ''2.0'', mr_id = ''1'',
             mr_result = Some [(''capabilities'', JObj [(''tools'', JObj [])])],
             mr_error = None\<rparr>"
  have f1: "fst (send_request ?E ''tools/list'' None fresh) = Inr ?r"
    by code_simp
  have f2: "fst (send_request ?F ''resources/list'' None fresh) = Inr ?q"
    by code_simp
  have h1: "send_request ?E ''tools/list'' None fresh
      = (Inr ?r, snd (send_request ?E ''tools/list'' None fresh))"
    using f1 by (simp add: prod_eq_iff)
  have h2: "send_request ?F ''resources/list'' None fresh
      = (Inr ?q, snd (send_request ?F ''resources/list'' None fresh))"
    using f2 by (simp add: prod_eq_iff)
  have k1: "lacks_key ?r ''tools''"
    by (simp add: lacks_key_def)
  have k2: "lacks_key ?q ''resources''"
    by (simp add: lacks_key_def)
  from listing_without_key_is_empty [of ?E fresh ?r "snd (send_request ?E ''tools/list'' None fresh)"]
    h1 k1
  have a: "fst (list_tools ?E fresh) = Inr []"
    by simp
  from listing_without_key_is_empty [of ?F fresh _ _ ?q
      "snd (send_request ?F ''resources/list'' None fresh)"] h2 k2
  have b: "fst (list_resources ?F fresh) = Inr []"
    by simp
  from f1 f2 k1 k2 a b show ?thesis
    by simp
qed

lemma list_tools_returns: "\<exists>ts. fst (list_tools env s) = Inr ts"
  by (simp add: list_tools_def split: prod.splits sum.splits)

lemma list_resources_returns: "\<exists>rs. fst (list_resources env s) = Inr rs"
  by (simp add: list_resources_def split: prod.splits sum.splits)

text \<open>
  C10. \<^verbatim>\<open>list_tools\<close> and \<^verbatim>\<open>list_resources\<close> raise in no state and in no environment.
  When the exchange fails, for whatever reason, and when the exchange succeeds and
  reading the listing raises, they return the empty list: the same value as for a
  response whose listing is the empty list.
\<close>

theorem listings_absorb_failures:
  "(\<exists>ts. fst (list_tools env s) = Inr ts)
   \<and> (\<exists>rs. fst (list_resources env s) = Inr rs)
   \<and> (send_request env ''tools/list'' None s = (Inl e, s1) \<longrightarrow>
        list_tools env s = (Inr [], s1))
   \<and> (send_request env ''tools/list'' None s = (Inr resp, s1) \<and> tools_of resp = Inl e \<longrightarrow>
        list_tools env s = (Inr [], s1))
   \<and> (send_request env ''tools/list'' None s = (Inr resp, s1)
        \<and> listing resp ''tools'' = JArr [] \<longrightarrow>
        list_tools env s = (Inr [], s1))
   \<and> (send_request env ''resources/list'' None s = (Inl e, s1) \<longrightarrow>
        list_resources env s = (Inr [], s1))
   \<and> (send_request env ''resources/list'' None s = (Inr resp, s1)
        \<and> resources_of resp = Inl e \<longrightarrow>
        list_resources env s = (Inr [], s1))
   \<and> (send_request env ''resources/list'' None s = (Inr resp, s1)
        \<and> listing resp ''resources'' = JArr [] \<longrightarrow>
        list_resources env s = (Inr [], s1))"
  using list_tools_returns [of env s] list_resources_returns [of env s]
  by (simp add: list_tools_def list_resources_def tools_of_def resources_of_def py_iter_def)


theorem listings_absorb_failures_witness:
  "fst (send_request (example_env refusing) ''tools/list'' None fresh)
     = Inl (PyException ''Failed to communicate with MCP server: Connection refused''
              (Some (RequestException ''Connection refused'')))
   \<and> fst (list_tools (example_env refusing) fresh) = Inr []
   \<and> fst (send_request (example_env (answering (json_response doc_invalid_params)))
            ''resources/list'' None fresh)
     = Inl (PyException ''MCP Error: Invalid params'' None)
   \<and> fst (list_resources (example_env (answering (json_response doc_invalid_params))) fresh)
     = Inr []
   \<and> tools_of \<lparr>mr_jsonrpc = ''2.0'', mr_id = ''1'',
        mr_result = Some [(''tools'', JArr [JObj [(''description'', JStr ''no name'')]]),
                          (''resources'', JArr [JObj [(''uri'', JStr ''file:///a'')]])],
        mr_error = None\<rparr> = Inl (KeyError ''name'')
   \<and> fst (list_tools (example_env (answering (json_response doc_nameless_entries))) fresh)
     = Inr []
   \<and> resources_of \<lparr>mr_jsonrpc = ''2.0'', mr_id = ''1'',
        mr_result = Some [(''tools'', JArr [JObj [(''description'', JStr ''no name'')]]),
                          (''resources'', JArr [JObj [(''uri'', JStr ''file:///a'')]])],
        mr_error = None\<rparr>
       = Inl (ValidationError ''Resource'' (JObj [(''uri'', JStr ''file:///a'')]))
   \<and> fst (list_resources (example_env (answering (json_response doc_nameless_entries))) fresh)
     = Inr []
   \<and> fst (list_tools (example_env (answering (json_response doc_empty_result))) fresh) = Inr []
   \<and> fst (list_resources (example_env (answering (json_response doc_empty_result))) fresh)
     = Inr []"
proof -
  let ?R = "example_env refusing"
  let ?P = "example_env (answering (json_response doc_invalid_params))"
  let ?N = "example_env (answering (json_response doc_nameless_entries))"
  let ?M = "example_env (answering (json_response doc_empty_result))"
  let ?ce = "PyException ''Failed to communicate with MCP server: Connection refused''
              (Some (RequestException ''Connection refused''))"
  let ?pe = "PyException ''MCP Error: Invalid params'' None"
  let ?n = "\<lparr>mr_jsonrpc = ''2.0'', mr_id = ''1'',
        mr_result = Some [(''tools'', JArr [JObj [(''description'', JStr ''no name'')]]),
                          (''resources'', JArr [JObj [(''uri'', JStr ''file:///a'')]])],
        mr_error = None\<rparr>"
  let ?m = "\<lparr>mr_jsonrpc = ''2.0'', mr_id = ''1'', mr_result = Some [], mr_error = None\<rparr>"
  have f1: "fst (send_request ?R ''tools/list'' None fresh) = Inl ?ce"
    by code_simp
  have f2: "fst (send_request ?P ''resources/list'' None fresh) = Inl ?pe"
    by code_simp
  have f3: "fst (send_request ?N ''tools/list'' None fresh) = Inr ?n"
    by code_simp
  have f4: "fst (send_request ?N ''resources/list'' None fresh) = Inr ?n"
    by code_simp
  have f5: "fst (send_request ?M ''tools/list'' None fresh) = Inr ?m"
    by code_simp
  have f6: "fst (send_request ?M ''resources/list'' None fresh) = Inr ?m"
    by code_simp
  have p3: "tools_of ?n = Inl (KeyError ''name'')"
    by code_simp
  have p4: "resources_of ?n = Inl (ValidationError ''Resource'' (JObj [(''uri'', JStr ''file:///a'')]))"
    by code_simp
  have p5: "listing ?m ''tools'' = JArr []" "listing ?m ''resources'' = JArr []"
    by (simp_all add: listing_def)
  have pair: "fst x = a \<Longrightarrow> x = (a, snd x)" for x :: "'a \<times> 'b" and a
    by (simp add: prod_eq_iff)
  from listings_absorb_failures [of ?R fresh ?ce "snd (send_request ?R ''tools/list'' None fresh)"]
    pair [OF f1]
  have g1: "fst (list_tools ?R fresh) = Inr []"
    by simp
  from listings_absorb_failures [of ?P fresh ?pe
      "snd (send_request ?P ''resources/list'' None fresh)"] pair [OF f2]
  have g2: "fst (list_resources ?P fresh) = Inr []"
    by simp
  from listings_absorb_failures [of ?N fresh "KeyError ''name''"
      "snd (send_request ?N ''tools/list'' None fresh)" ?n] pair [OF f3] p3
  have g3: "fst (list_tools ?N fresh) = Inr []"
    by simp
  from listings_absorb_failures [of ?N fresh
      "ValidationError ''Resource'' (JObj [(''uri'', JStr ''file:///a'')])"
      "snd (send_request ?N ''resources/list'' None fresh)" ?n] pair [OF f4] p4
  have g4: "fst (list_resources ?N fresh) = Inr []"
    by simp
  from listings_absorb_failures [of ?M fresh _
      "snd (send_request ?M ''tools/list'' None fresh)" ?m] pair [OF f5] p5
  have g5: "fst (list_tools ?M fresh) = Inr []"
    by simp
  from listings_absorb_failures [of ?M fresh _
      "snd (send_request ?M ''resources/list'' None fresh)" ?m] pair [OF f6] p5
  have g6: "fst (list_resources ?M fresh) = Inr []"
    by simp
  from f1 f2 p3 p4 g1 g2 g3 g4 g5 g6 show ?thesis
    by simp
qed


section \<open>Properties of the flattening of a tool's schema\<close>

lemma raw_parameters_names:
  "raw_parameters required props = Inr ps \<Longrightarrow> map rp_name ps = map fst props"
  by (induction props arbitrary: ps) (auto split: sum.splits)

lemma raw_parameters_required:
  "raw_parameters (JArr req) props = Inr ps \<Longrightarrow>
   map rp_required ps = map (\<lambda>(name, info). JStr name \<in> set req) props"
  by (induction props arbitrary: ps) (auto simp: py_in_def split: sum.splits)

lemma tool_parameters_fields:
  "tool_parameters ps = Some qs \<Longrightarrow>
   map tp_name qs = map rp_name ps \<and> map tp_required qs = map rp_required ps"
  by (induction ps arbitrary: qs)
    (auto simp: ToolParameter_def split: option.splits)

lemma parse_tools_nth:
  "parse_tools ts = Inr tools \<Longrightarrow>
   length tools = length ts \<and> (\<forall>i < length ts. parse_tool (ts ! i) = Inr (tools ! i))"
  by (induction ts arbitrary: tools) (auto simp: nth_Cons' split: sum.splits)

lemma Tool_parameters:
  "Tool n d ps = Inr tool \<Longrightarrow> tool_parameters ps = Some (parameters tool)"
  by (cases "field_str (Some n)"; cases "field_str (Some d)"; cases "tool_parameters ps")
    (auto simp: Tool_def)

lemma parse_tool_flattens:
  assumes p: "parse_tool (JObj t) = Inr tool"
      and sc: "map_of t ''inputSchema'' = Some (JObj schema)"
      and pr: "map_of schema ''properties'' = Some (JObj props)"
      and rq: "map_of schema ''required'' = Some (JArr req)
               \<or> map_of schema ''required'' = None \<and> req = []"
  shows "map tp_name (parameters tool) = map fst props
       \<and> map tp_required (parameters tool) = map (\<lambda>(name, info). JStr name \<in> set req) props"
proof -
  from pr have ne: "schema \<noteq> []"
    by auto
  have s1: "py_or (JObj schema) (JObj []) = JObj schema"
    using ne by (simp add: py_or_def)
  have s2: "py_or (JObj props) (JObj []) = JObj props"
    by (simp add: py_or_def)
  have s3: "py_or (case map_of schema ''required'' of Some v \<Rightarrow> v | None \<Rightarrow> JArr []) (JArr [])
      = JArr req"
    using rq by (auto simp: py_or_def)
  from p sc pr s1 s2 s3 obtain ps where
    raw: "raw_parameters (JArr req) props = Inr ps" and
    tl: "\<exists>n d. Tool n d ps = Inr tool"
    by (auto simp: parse_tool_def dict_get_def py_items_def Let_def
        split: sum.splits option.splits)
  from tl have qs: "tool_parameters ps = Some (parameters tool)"
    by (auto dest: Tool_parameters)
  from raw_parameters_names [OF raw] raw_parameters_required [OF raw]
    tool_parameters_fields [OF qs]
  show ?thesis by simp
qed

text \<open>
  C9. When the exchange of \<^verbatim>\<open>list_tools\<close> succeeds, the listing is a list and no entry
  of it makes the loop raise, \<^verbatim>\<open>list_tools\<close> returns one tool for each entry, in order.
  For an entry whose input schema has the properties \<open>props\<close> and the list \<open>req\<close> as
  \<^verbatim>\<open>required\<close> (or no key \<^verbatim>\<open>required\<close>, and \<open>req\<close> is empty), the parameters of the tool
  have the names of \<open>props\<close> in the order of \<open>props\<close>, and each is required exactly when
  its name is an element of \<open>req\<close>, whatever the property entry itself says.
\<close>

theorem list_tools_flattens_schema:
  assumes ex: "send_request env ''tools/list'' None s = (Inr resp, s1)"
      and li: "listing resp ''tools'' = JArr ts"
      and ok: "parse_tools ts = Inr tools"
      and i: "i < length ts"
      and en: "ts ! i = JObj t"
      and sc: "map_of t ''inputSchema'' = Some (JObj schema)"
      and pr: "map_of schema ''properties'' = Some (JObj props)"
      and rq: "map_of schema ''required'' = Some (JArr req)
               \<or> map_of schema ''required'' = None \<and> req = []"
  shows "list_tools env s = (Inr tools, s1)
       \<and> length tools = length ts
       \<and> map tp_name (parameters (tools ! i)) = map fst props
       \<and> map tp_required (parameters (tools ! i))
           = map (\<lambda>(name, info). JStr name \<in> set req) props"
proof -
  have a: "list_tools env s = (Inr tools, s1)"
    using ex li ok by (simp add: list_tools_def tools_of_def py_iter_def)
  from parse_tools_nth [OF ok] i en have
    len: "length tools = length ts" and p: "parse_tool (JObj t) = Inr (tools ! i)"
    by auto
  from a len parse_tool_flattens [OF p sc pr rq] show ?thesis
    by simp
qed


theorem list_tools_flattens_schema_witness:
  "fst (send_request (example_env (answering (sse_response doc_one_tool))) ''tools/list'' None fresh)
     = Inr \<lparr>mr_jsonrpc = ''2.0'', mr_id = ''1'',
             mr_result = Some [(''tools'', JArr [search_tool_entry])], mr_error = None\<rparr>
   \<and> fst (list_tools (example_env (answering (sse_response doc_one_tool))) fresh)
     = Inr [\<lparr>tool_name = ''search'', tool_description = ''Search'',
              parameters =
                [\<lparr>tp_name = ''query'', tp_type = ''string'', tp_description = ''Query'',
                   tp_required = True, tp_enum = None\<rparr>,
                 \<lparr>tp_name = ''limit'', tp_type = ''number'', tp_description = [],
                   tp_required = False, tp_enum = None\<rparr>]\<rparr>]
   \<and> map tp_name (parameters
         (\<lparr>tool_name = ''search'', tool_description = ''Search'',
            parameters =
              [\<lparr>tp_name = ''query'', tp_type = ''string'', tp_description = ''Query'',
                 tp_required = True, tp_enum = None\<rparr>,
               \<lparr>tp_name = ''limit'', tp_type = ''number'', tp_description = [],
                 tp_required = False, tp_enum = None\<rparr>]\<rparr>))
       = [''query'', ''limit'']"
proof -
  let ?E = "example_env (answering (sse_response doc_one_tool))"
  let ?resp = "\<lparr>mr_jsonrpc = ''2.0'', mr_id = ''1'',
             mr_result = Some [(''tools'', JArr [search_tool_entry])], mr_error = None\<rparr>"
  let ?tool = "\<lparr>tool_name = ''search'', tool_description = ''Search'',
              parameters =
                [\<lparr>tp_name = ''query'', tp_type = ''string'', tp_description = ''Query'',
                   tp_required = True, tp_enum = None\<rparr>,
                 \<lparr>tp_name = ''limit'', tp_type = ''number'', tp_description = [],
                   tp_required = False, tp_enum = None\<rparr>]\<rparr>"
  let ?props = "[(''query'', JObj [(''type'', JStr ''string''), (''description'', JStr ''Query''),
                                  (''required'', JBool False)]),
                 (''limit'', JObj [(''type'', JStr ''number'')])]"
  let ?schema = "[(''type'', JStr ''object''), (''properties'', JObj ?props),
                  (''required'', JArr [JStr ''query''])]"
  let ?t = "[(''name'', JStr ''search''), (''description'', JStr ''Search''),
             (''inputSchema'', JObj ?schema)]"
  have f: "fst (send_request ?E ''tools/list'' None fresh) = Inr ?resp"
    by code_simp
  have ex: "send_request ?E ''tools/list'' None fresh
      = (Inr ?resp, snd (send_request ?E ''tools/list'' None fresh))"
    using f by (simp add: prod_eq_iff)
  have li: "listing ?resp ''tools'' = JArr [search_tool_entry]"
    by (simp add: listing_def)
  have ok: "parse_tools [search_tool_entry] = Inr [?tool]"
    by code_simp
  have i: "0 < length [search_tool_entry]"
    by simp
  have en: "[search_tool_entry] ! 0 = JObj ?t"
    by (simp add: search_tool_entry_def)
  have sc: "map_of ?t ''inputSchema'' = Some (JObj ?schema)"
    by simp
  have pr: "map_of ?schema ''properties'' = Some (JObj ?props)"
    by simp
  have rq: "map_of ?schema ''required'' = Some (JArr [JStr ''query''])
      \<or> map_of ?schema ''required'' = None \<and> [JStr ''query''] = []"
    by simp
  from list_tools_flattens_schema [OF ex li ok i en sc pr rq] f show ?thesis
    by simp
qed


section \<open>Properties of the session token\<close>

lemma token_after_append:
  "token_after tok (es @ [e]) =
     (case e of
        Request req outcome \<Rightarrow>
          (case supplied outcome of Some t \<Rightarrow> Some t | None \<Rightarrow> token_after tok es)
      | _ \<Rightarrow> token_after tok es)"
  by (induction tok es rule: token_after.induct) (auto split: event.splits option.splits)

lemma headers_follow_append:
  "headers_follow tok (es @ [e]) =
     (headers_follow tok es
      \<and> (case e of
            Request req outcome \<Rightarrow> session_header req = token_after tok es
          | Notification req outcome \<Rightarrow> session_header req = token_after tok es
          | _ \<Rightarrow> True))"
  by (induction tok es rule: headers_follow.induct) (auto split: event.splits option.splits)

lemma session_header_make_headers:
  "map_of (make_headers s) ''mcp-session-id''
     = (case session_id s of Some sid \<Rightarrow> (if sid \<noteq> [] then Some sid else None) | None \<Rightarrow> None)"
  by (simp add: make_headers_def split: option.splits)

lemma session_header_request_for:
  "session_id s \<noteq> Some [] \<Longrightarrow> session_header (request_for env m p s) = session_id s"
  by (simp add: session_header_def request_for_def session_header_make_headers
      split: option.splits)

lemma session_header_notification_for:
  "session_id s \<noteq> Some [] \<Longrightarrow> session_header (notification_for m p s) = session_id s"
  by (simp add: session_header_def notification_for_def session_header_make_headers
      split: option.splits)

lemma supplied_not_empty: "supplied outcome \<noteq> Some []"
  by (simp add: supplied_def split: post_outcome.splits option.splits)

lemma session_consistent_send_request:
  "session_consistent s \<Longrightarrow> session_consistent (snd (send_request env m p s))"
  using supplied_not_empty [of "transport env (trace s) (request_for env m p s)"]
  by (auto simp: session_consistent_def send_request_state Let_def token_after_append
      headers_follow_append session_header_request_for split: option.splits)

lemma session_consistent_send_notification:
  "session_consistent s \<Longrightarrow> session_consistent (send_notification env m p s)"
  by (simp add: session_consistent_def send_notification_def Let_def token_after_append
      headers_follow_append session_header_notification_for)

lemma session_consistent_sleep: "session_consistent s \<Longrightarrow> session_consistent (sleep d s)"
  by (simp add: session_consistent_def sleep_def token_after_append headers_follow_append)

lemma session_consistent_fields:
  "session_consistent (s\<lparr>connected := b\<rparr>) = session_consistent s"
  "session_consistent (s\<lparr>server_capabilities := c\<rparr>) = session_consistent s"
  by (simp_all add: session_consistent_def)

lemma session_consistent_connect_loop:
  "session_consistent s \<Longrightarrow> session_consistent (snd (connect_loop env ds s))"
proof (induction ds arbitrary: s)
  case Nil
  then show ?case by simp
next
  case (Cons d ds)
  obtain attempt delay where d: "d = (attempt, delay)"
    by (cases d)
  obtain r s1 where sr: "send_request env ''initialize'' (Some initialize_params) s = (r, s1)"
    by (cases "send_request env ''initialize'' (Some initialize_params) s")
  have s1: "session_consistent s1"
    using session_consistent_send_request [OF Cons.prems, of env "''initialize''"
        "Some initialize_params"] sr by simp
  show ?case
  proof (cases r)
    case (Inr resp)
    with d sr s1 show ?thesis
      by (simp add: Let_def session_consistent_fields session_consistent_send_notification)
  next
    case (Inl e)
    with d sr s1 Cons.IH [of "sleep delay s1"] show ?thesis
      by (simp add: session_consistent_sleep)
  qed
qed

lemma session_consistent_disconnect:
  "session_consistent s \<Longrightarrow> session_consistent (snd (disconnect env s))"
proof -
  assume a: "session_consistent s"
  have cl: "session_consistent (snd (session_close env x))" if "session_consistent x" for x
    using that
    by (auto simp: session_consistent_def session_close_def Let_def token_after_append
        headers_follow_append split: option.splits)
  have sh: "session_consistent (snd (shutdown_exchange env s))"
    using a session_consistent_send_request [OF a, of env "''shutdown''" None]
    by (auto simp: shutdown_exchange_def session_consistent_fields
        split: prod.splits sum.splits)
  have "snd (disconnect env s) = snd (session_close env (snd (shutdown_exchange env s)))"
    by (simp add: disconnect_def split: prod.splits sum.splits)
  with cl [OF sh] show ?thesis by simp
qed

lemma list_tools_state: "snd (list_tools env s) = snd (send_request env ''tools/list'' None s)"
  by (simp add: list_tools_def split: prod.splits sum.splits)

lemma list_resources_state:
  "snd (list_resources env s) = snd (send_request env ''resources/list'' None s)"
  by (simp add: list_resources_def split: prod.splits sum.splits)

lemma call_tool_state:
  "snd (call_tool env name arguments s)
     = snd (send_request env ''tools/call'' (Some (tool_call_params name arguments)) s)"
  by (simp add: call_tool_def Let_def split: prod.splits sum.splits)

lemma session_consistent_perform:
  "session_consistent s \<Longrightarrow> session_consistent (perform env c s)"
  by (cases c)
    (simp_all add: session_consistent_send_request session_consistent_send_notification
      connect_def session_consistent_connect_loop session_consistent_disconnect
      list_tools_state list_resources_state call_tool_state)

lemma session_consistent_run:
  "session_consistent s \<Longrightarrow> session_consistent (run env cs s)"
  by (induction cs arbitrary: s) (simp_all add: session_consistent_perform)

lemma session_consistent_new_client: "session_consistent (new_client u t)"
  by (simp add: session_consistent_def new_client_def)

text \<open>
  C6. After any sequence of exchanges and method calls on a new client: every request and
  every notification that was posted carried, as its session header, the token most
  recently supplied before it by the response to a request, and no session header when
  none had been supplied; the stored token is the most recently supplied one; the next
  request carries it, and carries no session header when no response has supplied one.
  The first request of a new client has no session header.
\<close>

theorem session_header_follows_supplied_token:
  "headers_follow None (trace (run env calls (new_client u t)))
   \<and> session_id (run env calls (new_client u t))
       = token_after None (trace (run env calls (new_client u t)))
   \<and> session_header (request_for env m p (run env calls (new_client u t)))
       = token_after None (trace (run env calls (new_client u t)))
   \<and> session_header (request_for env m p (new_client u t)) = None"
proof -
  have c: "session_consistent (run env calls (new_client u t))"
    by (simp add: session_consistent_run session_consistent_new_client)
  then have "session_header (request_for env m p (run env calls (new_client u t)))
      = session_id (run env calls (new_client u t))"
    by (simp add: session_consistent_def session_header_request_for)
  moreover have "session_header (request_for env m p (new_client u t)) = None"
    by (simp add: session_header_request_for new_client_def)
  ultimately show ?thesis
    using c by (simp add: session_consistent_def)
qed


theorem session_header_follows_supplied_token_witness:
  "session_id (run (example_env flaky) [Connect, ListTools]
       (new_client ''http://localhost:9000/mcp'' 30)) = Some ''abc''
   \<and> token_after None (trace (run (example_env flaky) [Connect, ListTools]
       (new_client ''http://localhost:9000/mcp'' 30))) = Some ''abc''
   \<and> headers_follow None (trace (run (example_env flaky) [Connect, ListTools]
       (new_client ''http://localhost:9000/mcp'' 30)))
   \<and> session_header (request_for (example_env flaky) ''tools/call'' None
       (run (example_env flaky) [Connect, ListTools]
          (new_client ''http://localhost:9000/mcp'' 30))) = Some ''abc''"
proof -
  have "session_id (run (example_env flaky) [Connect, ListTools]
       (new_client ''http://localhost:9000/mcp'' 30)) = Some ''abc''"
    by code_simp
  with session_header_follows_supplied_token [of "example_env flaky" "[Connect, ListTools]"
      "''http://localhost:9000/mcp''" 30 "''tools/call''" None]
  show ?thesis by simp
qed

end
